theory Spec2Isabelle
  imports Main
begin

section \<open>Errors, strings and formatting\<close>

text \<open>
  A Go \<open>error\<close> value. \<open>NotFound\<close> is an API status error for which
  \<open>kerr.IsNotFound\<close> holds, \<open>Err\<close> any other error (also the ones built by
  \<open>fmt.Errorf\<close>), \<open>Panic\<close> the panic of a \<open>...OrDie\<close> constructor.
\<close>

datatype error = NotFound string | Err string | Panic string

fun msg :: "error \<Rightarrow> string" where
  "msg (NotFound m) = m"
| "msg (Err m) = m"
| "msg (Panic m) = m"

fun IsNotFound :: "error \<Rightarrow> bool" where
  "IsNotFound (NotFound m) = True"
| "IsNotFound e = False"

text \<open>\<open>fmt.Errorf(prefix + "%w", err)\<close> and \<open>fmt.Errorf(prefix + "%v", err)\<close>.\<close>

definition Errorf :: "string \<Rightarrow> error \<Rightarrow> error" where
  "Errorf prefix err = Err (prefix @ msg err)"

text \<open>\<open>strings.Join\<close>.\<close>

fun Join :: "string list \<Rightarrow> string \<Rightarrow> string" where
  "Join [] sep = []"
| "Join [x] sep = x"
| "Join (x # y # ys) sep = x @ sep @ Join (y # ys) sep"

text \<open>The verb \<open>%d\<close> on a length.\<close>

definition digit :: "nat \<Rightarrow> char" where
  "digit d = char_of (48 + d)"

fun show_nat :: "nat \<Rightarrow> string" where
  "show_nat n = (if n < 10 then [digit n] else show_nat (n div 10) @ [digit (n mod 10)])"

declare show_nat.simps [simp del]

section \<open>Constants of k8s.go\<close>

definition meshConfigMapKey :: string where
  "meshConfigMapKey = ''mesh''"

definition meshConfigMapName :: string where
  "meshConfigMapName = ''istio''"

definition istioNamespace :: string where
  "istioNamespace = ''istio-system''"

record GroupVersionResource =
  Group :: string
  Version :: string
  Resource :: string

definition gvrPolicies :: "GroupVersionResource list" where
  "gvrPolicies =
    [\<lparr>Group = ''authentication.istio.io'', Version = ''v1alpha1'', Resource = ''policies''\<rparr>,
     \<lparr>Group = ''authentication.istio.io'', Version = ''v1alpha1'', Resource = ''meshpolicies''\<rparr>]"

definition gvrRbac :: "GroupVersionResource list" where
  "gvrRbac =
    [\<lparr>Group = ''rbac.istio.io'', Version = ''v1alpha1'', Resource = ''rbacconfigs''\<rparr>,
     \<lparr>Group = ''rbac.istio.io'', Version = ''v1alpha1'', Resource = ''clusterrbacconfigs''\<rparr>,
     \<lparr>Group = ''rbac.istio.io'', Version = ''v1alpha1'', Resource = ''servicerolebindings''\<rparr>,
     \<lparr>Group = ''rbac.istio.io'', Version = ''v1alpha1'', Resource = ''serviceroles''\<rparr>]"

section \<open>The cluster as seen through the two clients\<close>

text \<open>
  An \<open>unstructured.Unstructured\<close> object: the three accessors \<open>convert\<close> calls
  (\<open>GetKind\<close>, \<open>GetNamespace\<close>, \<open>GetName\<close>) and the rest of its content.
\<close>

record 'c Unstructured =
  GetKind :: string
  GetNamespace :: string
  GetName :: string
  Object :: 'c

text \<open>
  A client is modelled by the answers the API server gives through it:
  \<open>Resource(gvr).Namespace(NamespaceAll).List\<close> for the dynamic client;
  \<open>Namespaces().Get\<close> (a pointer that may be nil, and an error),
  \<open>ConfigMaps(ns).Get\<close> (the \<open>Data\<close> of the config map) and
  \<open>Services(NamespaceAll).List\<close> for the typed client set.
\<close>

record 'c DynamicClient =
  List :: "GroupVersionResource \<Rightarrow> error + 'c Unstructured list"

record 's Clientset =
  NamespacesGet :: "string \<Rightarrow> bool \<times> error option"
  ConfigMapsGet :: "string \<Rightarrow> string \<Rightarrow> error + (string \<rightharpoonup> string)"
  ServicesList :: "error + 's"

record ('c, 's) kubeClient =
  dynamicClient :: "'c DynamicClient"
  kubeClient :: "'s Clientset"
  rootNamespace :: string

section \<open>Construction of the client\<close>

text \<open>
  What \<open>json.Unmarshal\<close> stores in a \<open>map[string]interface{}\<close>: \<open>nil\<close>, a bool,
  a number (kept as its literal), a string, a slice or a nested map.
\<close>

datatype json =
  JNull | JBool bool | JNumber string | JString string
  | JArray "json list" | JObject "(string \<times> json) list"

text \<open>
  The library functions and the operating system that \<open>newKubeClient\<close> and
  \<open>setRootnamespace\<close> call: \<open>os.Stat\<close> (the size of the file, or an error),
  the deferred loading of the client configuration, the two \<open>NewForConfig\<close>
  constructors (whose \<open>OrDie\<close> variants panic on an error), \<open>yaml.YAMLToJSON\<close>
  and \<open>json.Unmarshal\<close> into an empty map.
\<close>

record ('cfg, 'c, 's) host =
  Stat :: "string \<Rightarrow> error + int"
  ClientConfig :: "string \<Rightarrow> string \<Rightarrow> error + 'cfg"
  dynamicNewForConfig :: "'cfg \<Rightarrow> error + 'c DynamicClient"
  kubernetesNewForConfig :: "'cfg \<Rightarrow> error + 's Clientset"
  YAMLToJSON :: "string \<Rightarrow> error + string"
  Unmarshal :: "string \<Rightarrow> error + (string \<rightharpoonup> json)"

text \<open>
  \<open>setRootnamespace\<close> returns its error (if any), the client as it leaves it and the
  lines it logs.
\<close>

definition setRootnamespace ::
  "('cfg, 'c, 's) host \<Rightarrow> ('c, 's) kubeClient \<Rightarrow> error option \<times> ('c, 's) kubeClient \<times> string list"
where
  "setRootnamespace h kc =
    (case ConfigMapsGet (kubeClient kc) istioNamespace meshConfigMapName of
       Inl err \<Rightarrow>
         if IsNotFound err then
           (None, kc\<lparr>rootNamespace := istioNamespace\<rparr>,
            [''could not find mesh config '' @ meshConfigMapName @ '', using '' @ istioNamespace
               @ '' as default root namespace''])
         else (Some (Errorf ''failed to get meshconfig: '' err), kc, [])
     | Inr data \<Rightarrow>
         (case data meshConfigMapKey of
            None \<Rightarrow>
              (Some (Err (''missing config map key '' @ [CHR 0x22] @ meshConfigMapKey @ [CHR 0x22])),
               kc, [])
          | Some configYaml \<Rightarrow>
              (case YAMLToJSON h configYaml of
                 Inl err \<Rightarrow> (Some (Errorf ''failed converting YAML to JSON: '' err), kc, [])
               | Inr jsonData \<Rightarrow>
                   (case Unmarshal h jsonData of
                      Inl err \<Rightarrow> (Some (Errorf ''failed unmarshaling JSON object: '' err), kc, [])
                    | Inr jsonObject \<Rightarrow>
                        (let (kc1, log1) =
                               (case jsonObject ''rootNamespace'' of
                                  Some (JString v) \<Rightarrow>
                                    if v \<noteq> [] then
                                      (kc\<lparr>rootNamespace := v\<rparr>, [''found root namespace: '' @ v])
                                    else (kc, [])
                                | _ \<Rightarrow> (kc, []));
                             (kc2, log2) =
                               (if rootNamespace kc1 = [] then
                                  (kc1\<lparr>rootNamespace := istioNamespace\<rparr>,
                                   [''root namespace not set, using '' @ istioNamespace
                                      @ '' as default''])
                                else (kc1, []))
                         in (None, kc2, log1 @ log2))))))"

text \<open>
  \<open>newKubeClient\<close>: the client, or the error returned (or the panic raised) on the way.
  A fresh \<open>kubeClient\<close> has the zero value \<open>""\<close> as its root namespace.
\<close>

definition newKubeClient ::
  "('cfg, 'c, 's) host \<Rightarrow> string \<Rightarrow> string \<Rightarrow> error + ('c, 's) kubeClient"
where
  "newKubeClient h kubeconfig configContext =
    (let unreadable =
           (if kubeconfig \<noteq> [] then
              (case Stat h kubeconfig of
                 Inl err \<Rightarrow> Some (msg err)
               | Inr sz \<Rightarrow> if sz = 0 then Some ''%!w(<nil>)'' else None)
            else None)
     in case unreadable of
          Some m \<Rightarrow>
            Inl (Err (''kubeconfig ('' @ kubeconfig @ '') specified but could not be read: '' @ m))
        | None \<Rightarrow>
            (case ClientConfig h kubeconfig configContext of
               Inl err \<Rightarrow> Inl err
             | Inr config \<Rightarrow>
                 (case dynamicNewForConfig h config of
                    Inl err \<Rightarrow> Inl (Panic (msg err))
                  | Inr dc \<Rightarrow>
                      (case kubernetesNewForConfig h config of
                         Inl err \<Rightarrow> Inl (Panic (msg err))
                       | Inr cs \<Rightarrow>
                           (case setRootnamespace h
                                   \<lparr>dynamicClient = dc, kubeClient = cs, rootNamespace = []\<rparr> of
                              (Some err, kc, lg) \<Rightarrow> Inl err
                            | (None, kc, lg) \<Rightarrow> Inr kc)))))"

text \<open>
  The root namespace that the mesh configuration asks for: the value of the field
  \<open>rootNamespace\<close> of the \<open>mesh\<close> entry of the config map \<open>istio\<close>, when the config
  map exists, the entry parses and the value is a non-empty string.
\<close>

definition configuredRootNamespace :: "('cfg, 'c, 's) host \<Rightarrow> 's Clientset \<Rightarrow> string option" where
  "configuredRootNamespace h cs =
    (case ConfigMapsGet cs istioNamespace meshConfigMapName of
       Inl err \<Rightarrow> None
     | Inr data \<Rightarrow>
         (case data meshConfigMapKey of
            None \<Rightarrow> None
          | Some configYaml \<Rightarrow>
              (case YAMLToJSON h configYaml of
                 Inl err \<Rightarrow> None
               | Inr jsonData \<Rightarrow>
                   (case Unmarshal h jsonData of
                      Inl err \<Rightarrow> None
                    | Inr jsonObject \<Rightarrow>
                        (case jsonObject ''rootNamespace'' of
                           Some (JString v) \<Rightarrow> if v \<noteq> [] then Some v else None
                         | _ \<Rightarrow> None)))))"

section \<open>The conversion run\<close>

text \<open>
  The summary that \<open>Convert\<close> returns with its output; \<open>convert\<close> reads only
  \<open>summary.errors\<close>.
\<close>

record ConversionSummary =
  errors :: "string list"
  warnings :: "string list"

text \<open>
  The parts of the package that \<open>convert\<close> calls and that live in its other files:
  \<open>newConverter\<close>, \<open>Convert\<close>, \<open>convertToPolicy\<close>, \<open>toYAML\<close> and the flag
  \<open>ignoreError\<close>; and \<open>fmt.Printf\<close> applied to a format string with no operands
  (\<open>convert\<close> passes the accumulated output as the format string).
\<close>

record ('c, 's, 'p, 'o, 'cv) package =
  newConverter :: "string \<Rightarrow> 's \<Rightarrow> 'cv"
  Convert :: "'cv \<Rightarrow> 'p \<Rightarrow> 'o list \<times> ConversionSummary"
  convertToPolicy :: "'c Unstructured \<Rightarrow> error + 'p"
  toYAML :: "'o \<Rightarrow> string"
  ignoreError :: bool
  Printf :: "string \<Rightarrow> string"

definition hasIstioNamespace :: "('c, 's) kubeClient \<Rightarrow> bool" where
  "hasIstioNamespace kc =
    (case NamespacesGet (kubeClient kc) istioNamespace of (ns, err) \<Rightarrow> ns \<and> err = None)"

definition listResources ::
  "('c, 's) kubeClient \<Rightarrow> GroupVersionResource \<Rightarrow> error + 'c Unstructured list" where
  "listResources kc gvr = List (dynamicClient kc) gvr"

text \<open>The separator \<open>"\n\t* "\<close> and the lines that \<open>convert\<close> logs.\<close>

definition bullet :: string where
  "bullet = [CHR 0x0A, CHR 0x09] @ ''* ''"

definition skippedLine :: "GroupVersionResource \<Rightarrow> error \<Rightarrow> string" where
  "skippedLine gvr err = ''skipped resource '' @ Resource gvr @ '': '' @ msg err"

definition failedLine :: "'c Unstructured \<Rightarrow> string list \<Rightarrow> string" where
  "failedLine item errs =
    ''FAILED  converting policy '' @ GetNamespace item @ ''/'' @ GetName item @ '', found ''
      @ show_nat (length errs) @ '' errors: '' @ (bullet @ Join errs bullet)"

definition successLine :: "'c Unstructured \<Rightarrow> string" where
  "successLine item = ''SUCCESS converting policy '' @ GetNamespace item @ ''/'' @ GetName item"

definition rbacLine :: "string list \<Rightarrow> string" where
  "rbacLine rbacResources =
    ''FAILED  found '' @ show_nat (length rbacResources)
      @ '' RBAC resources, this tool only supports converting authentication policy, ''
      @ ''check https://istio.io/latest/blog/2019/v1beta1-authorization-policy/''
      @ ''#migration-from-the-v1alpha1-policy for converting RBAC resources manually: ''
      @ (bullet @ Join rbacResources bullet)"

definition ignoredLine :: string where
  "ignoredLine =
    ''Found errors but ignored with --ignore-error, the converted policies may not work as expected''"

definition rbacEntry :: "'c Unstructured \<Rightarrow> string" where
  "rbacEntry item = GetKind item @ '': '' @ GetNamespace item @ ''/'' @ GetName item"

text \<open>
  The local variables of \<open>convert\<close> that its loops update, and the lines logged so far.
\<close>

record run_state =
  hasError :: bool
  betaPolicyOutput :: string
  logged :: "string list"

text \<open>
  The inner loop over \<open>objectList.Items\<close>. A policy that does not decode makes
  \<open>convert\<close> return at once: the result is then the error and the lines logged before.
\<close>

fun convertItems ::
  "('c, 's, 'p, 'o, 'cv) package \<Rightarrow> 'cv \<Rightarrow> 'c Unstructured list \<Rightarrow> run_state
    \<Rightarrow> (error \<times> string list) + run_state"
where
  "convertItems d converter [] st = Inr st"
| "convertItems d converter (item # items) st =
    (case convertToPolicy d item of
       Inl err \<Rightarrow>
         Inl (Errorf ''failed to convert resource to authentication policy: '' err, logged st)
     | Inr policy \<Rightarrow>
         (case Convert d converter policy of
            (output, summary) \<Rightarrow>
              if length (errors summary) \<noteq> 0 then
                convertItems d converter items
                  (st\<lparr>hasError := True,
                      logged := logged st @ [failedLine item (errors summary)]\<rparr>)
              else
                convertItems d converter items
                  (st\<lparr>betaPolicyOutput := betaPolicyOutput st @ concat (map (toYAML d) output),
                      logged := logged st @ [successLine item]\<rparr>)))"

text \<open>The outer loop over \<open>gvrPolicies\<close>: a kind that cannot be listed is skipped.\<close>

fun convertPolicies ::
  "('c, 's, 'p, 'o, 'cv) package \<Rightarrow> ('c, 's) kubeClient \<Rightarrow> 'cv \<Rightarrow> GroupVersionResource list
    \<Rightarrow> run_state \<Rightarrow> (error \<times> string list) + run_state"
where
  "convertPolicies d kc converter [] st = Inr st"
| "convertPolicies d kc converter (gvr # gvrs) st =
    (case listResources kc gvr of
       Inl err \<Rightarrow>
         convertPolicies d kc converter gvrs (st\<lparr>logged := logged st @ [skippedLine gvr err]\<rparr>)
     | Inr items \<Rightarrow>
         (case convertItems d converter items st of
            Inl e \<Rightarrow> Inl e
          | Inr st' \<Rightarrow> convertPolicies d kc converter gvrs st'))"

text \<open>The loop over \<open>gvrRbac\<close> that fills \<open>rbacResources\<close>.\<close>

fun collectRbac ::
  "('c, 's) kubeClient \<Rightarrow> GroupVersionResource list \<Rightarrow> string list \<Rightarrow> string list"
where
  "collectRbac kc [] rbacResources = rbacResources"
| "collectRbac kc (gvr # gvrs) rbacResources =
    (case listResources kc gvr of
       Inl err \<Rightarrow> collectRbac kc gvrs rbacResources
     | Inr items \<Rightarrow> collectRbac kc gvrs (rbacResources @ map rbacEntry items))"

text \<open>
  What a run of \<open>convert\<close> leaves behind: the error it returns (\<open>None\<close> for \<open>nil\<close>),
  what it wrote to the standard output, and the lines it logged.
\<close>

record run =
  ret :: "error option"
  stdout :: string
  logs :: "string list"

definition convert :: "('c, 's, 'p, 'o, 'cv) package \<Rightarrow> ('c, 's) kubeClient \<Rightarrow> run" where
  "convert d kc =
    (if \<not> hasIstioNamespace kc then
       \<lparr>ret = Some (Err (''could not find '' @ istioNamespace @ '' namespace'')),
        stdout = [], logs = []\<rparr>
     else
       (case ServicesList (kubeClient kc) of
          Inl err \<Rightarrow>
            \<lparr>ret = Some (Errorf ''failed to list services: '' err), stdout = [], logs = []\<rparr>
        | Inr services \<Rightarrow>
            (case convertPolicies d kc (newConverter d (rootNamespace kc) services) gvrPolicies
                    \<lparr>hasError = False, betaPolicyOutput = [], logged = []\<rparr> of
               Inl (err, lines) \<Rightarrow> \<lparr>ret = Some err, stdout = [], logs = lines\<rparr>
             | Inr st \<Rightarrow>
                 (let rbacResources = collectRbac kc gvrRbac [];
                      st1 = (if length rbacResources \<noteq> 0 then
                               st\<lparr>hasError := True,
                                  logged := logged st @ [rbacLine rbacResources]\<rparr>
                             else st)
                  in if hasError st1 then
                       (if ignoreError d then
                          \<lparr>ret = None, stdout = Printf d (betaPolicyOutput st1),
                           logs = logged st1 @ [ignoredLine]\<rparr>
                        else
                          \<lparr>ret = Some (Err (''conversion failed, found errors during conversion, ''
                                   @ ''please fix errors and re-run the tool again'')),
                           stdout = [], logs = logged st1\<rparr>)
                     else
                       \<lparr>ret = None, stdout = Printf d (betaPolicyOutput st1),
                        logs = logged st1\<rparr>))))"

text \<open>
  Notions used to state the properties of a run: the objects of the kinds \<open>gvrs\<close> that
  the cluster lists, whether an object decodes, whether its conversion reports errors,
  the YAML it adds to the output, and the line logged for it.
\<close>

definition listed :: "('c, 's) kubeClient \<Rightarrow> GroupVersionResource list \<Rightarrow> 'c Unstructured list" where
  "listed kc gvrs =
    concat (map (\<lambda>gvr. case listResources kc gvr of Inl err \<Rightarrow> [] | Inr items \<Rightarrow> items) gvrs)"

definition decodes :: "('c, 's, 'p, 'o, 'cv) package \<Rightarrow> 'c Unstructured \<Rightarrow> bool" where
  "decodes d item = (case convertToPolicy d item of Inl err \<Rightarrow> False | Inr policy \<Rightarrow> True)"

definition summaryErrors ::
  "('c, 's, 'p, 'o, 'cv) package \<Rightarrow> 'cv \<Rightarrow> 'c Unstructured \<Rightarrow> string list" where
  "summaryErrors d converter item =
    (case convertToPolicy d item of
       Inl err \<Rightarrow> []
     | Inr policy \<Rightarrow> errors (snd (Convert d converter policy)))"

definition resourcesYAML ::
  "('c, 's, 'p, 'o, 'cv) package \<Rightarrow> 'cv \<Rightarrow> 'c Unstructured \<Rightarrow> string" where
  "resourcesYAML d converter item =
    (case convertToPolicy d item of
       Inl err \<Rightarrow> []
     | Inr policy \<Rightarrow> concat (map (toYAML d) (fst (Convert d converter policy))))"

definition itemLine ::
  "('c, 's, 'p, 'o, 'cv) package \<Rightarrow> 'cv \<Rightarrow> 'c Unstructured \<Rightarrow> string" where
  "itemLine d converter item =
    (if summaryErrors d converter item \<noteq> [] then failedLine item (summaryErrors d converter item)
     else successLine item)"

definition policyLines ::
  "('c, 's, 'p, 'o, 'cv) package \<Rightarrow> ('c, 's) kubeClient \<Rightarrow> 'cv \<Rightarrow> GroupVersionResource
    \<Rightarrow> string list"
where
  "policyLines d kc converter gvr =
    (case listResources kc gvr of
       Inl err \<Rightarrow> [skippedLine gvr err]
     | Inr items \<Rightarrow> map (itemLine d converter) items)"

section \<open>The policy converter\<close>

text \<open>
  The converter (\<open>newConverter\<close>, \<open>Convert\<close>) is in a file of the package that is not
  among the sources; only the reference output of one conversion is. The definitions of
  this section follow the specification's data model (3) and its conversion algorithm
  (4.2, 4.3).
\<close>

text \<open>
  Modelled from the spec: the LegacyPolicy of the data model (3), whose declaration is
  missing. A peer method is \<open>MutualTLS\<close>; an origin method is a JwtSpec, that is the
  four fields of a JwtRule and the trigger rules.
\<close>

datatype PeerMethod = MutualTLS

datatype PrincipalBinding = UsePeer | UseOrigin | Unspecified

record TriggerRule =
  includedPaths :: "string list"
  excludedPaths :: "string list"

record JwtRule =
  issuer :: string
  jwksUri :: string
  audiences :: "string set"
  jwtHeaders :: "string list"

record JwtSpec = JwtRule +
  triggerRules :: "TriggerRule list"

record Target =
  serviceName :: string
  ports :: "int set option"

record LegacyPolicy =
  name :: string
  namespace :: string
  peerIsOptional :: bool
  peerMethods :: "PeerMethod list"
  originIsOptional :: bool
  originMethods :: "JwtSpec list"
  principalBinding :: PrincipalBinding
  targets :: "Target list"

text \<open>
  Modelled from the spec: the SelectorIndex of the data model (3), whose declaration is
  missing. A pod-label selector is the list of its label keys with their values; \<open>[]\<close>
  is "no pod selector".
\<close>

type_synonym selector = "(string \<times> string) list"

type_synonym SelectorIndex = "string \<times> string \<rightharpoonup> selector"

text \<open>
  Modelled from the spec: the GeneratedResource of the data model (3), whose declaration
  is missing: the common fields, and the kind with the fields of the kind.
\<close>

datatype Mode = Strict | Permissive | Disable

datatype Action = Deny

record AuthorizationRule =
  requiresRequestPrincipal :: bool

datatype ResourceSpec =
  PeerAuthentication Mode
  | RequestAuthentication "JwtRule list"
  | AuthorizationPolicy Action "AuthorizationRule list"

record GeneratedResource =
  resourceName :: string
  resourceNamespace :: string
  selector :: "selector option"
  provenanceAnnotation :: string
  spec :: ResourceSpec

text \<open>
  Modelled from the spec: what a converter holds, the root namespace of the cluster
  (for a mesh-scoped policy) and the selector index.
\<close>

record Converter =
  root :: string
  index :: SelectorIndex

datatype ResolveError = TargetNotFound | AmbiguousSelector

text \<open>
  Modelled from the spec: the Selector Resolver (4.2), whose code is not at hand. Exact
  match on namespace and name; a service without pod selector is \<open>AmbiguousSelector\<close>.
\<close>

definition resolve :: "SelectorIndex \<Rightarrow> string \<Rightarrow> string \<Rightarrow> ResolveError + selector" where
  "resolve idx ns svc =
    (case idx (ns, svc) of
       None \<Rightarrow> Inl TargetNotFound
     | Some sel \<Rightarrow> if sel = [] then Inl AmbiguousSelector else Inr sel)"

text \<open>
  Modelled from the spec: step 1 of the conversion algorithm (4.3), the target set. A
  policy without targets has the single implicit target "the whole scope".
\<close>

datatype ConversionTarget = WholeScope | Service Target

definition targetSet :: "LegacyPolicy \<Rightarrow> ConversionTarget list" where
  "targetSet p = (if targets p = [] then [WholeScope] else map Service (targets p))"

text \<open>
  Modelled from the spec: the effective namespace of a target (step 1), the namespace of
  the policy, or the root namespace for a mesh-scoped policy (empty namespace).
\<close>

definition effectiveNamespace :: "Converter \<Rightarrow> LegacyPolicy \<Rightarrow> string" where
  "effectiveNamespace cv p = (if namespace p = [] then root cv else namespace p)"

text \<open>
  Modelled from the spec: the line of a selector that does not resolve (step 2). The
  spec fixes the kinds of the errors and not their wording: each line is the name of
  its kind and its subject.
\<close>

definition resolveErrorLine :: "ResolveError \<Rightarrow> string \<Rightarrow> string \<Rightarrow> string" where
  "resolveErrorLine e ns svc =
    (case e of TargetNotFound \<Rightarrow> ''TargetNotFound: '' | AmbiguousSelector \<Rightarrow> ''AmbiguousSelector: '')
      @ ns @ ''/'' @ svc"

text \<open>
  Modelled from the spec: the unsupported shape of step 3 that belongs to the policy
  and not to one of its targets, more than one peer method. It is one error of the
  policy, whatever the number of its targets, and no target of such a policy is
  converted.
\<close>

definition peerMethodErrors :: "LegacyPolicy \<Rightarrow> string list" where
  "peerMethodErrors p =
    (if length (peerMethods p) > 1 then [''UnsupportedConstruct: more than one peer method'']
     else [])"

text \<open>
  Modelled from the spec: steps 2 and 3, the errors of one target, all of them
  collected: a selector that does not resolve, and explicit ports. The implicit target
  has neither service nor ports.
\<close>

definition targetErrors :: "Converter \<Rightarrow> LegacyPolicy \<Rightarrow> ConversionTarget \<Rightarrow> string list" where
  "targetErrors cv p tgt =
    (case tgt of
       WholeScope \<Rightarrow> []
     | Service t \<Rightarrow>
         (case resolve (index cv) (effectiveNamespace cv p) (serviceName t) of
            Inl e \<Rightarrow> [resolveErrorLine e (effectiveNamespace cv p) (serviceName t)]
          | Inr sel \<Rightarrow> [])
         @ (if ports t \<noteq> None then [''UnsupportedConstruct: ports of target '' @ serviceName t]
            else []))"

text \<open>
  Modelled from the spec: the selector of the resources of a target (step 7), the
  resolved one, and none for the implicit target.
\<close>

definition targetSelector :: "Converter \<Rightarrow> LegacyPolicy \<Rightarrow> ConversionTarget \<Rightarrow> selector option" where
  "targetSelector cv p tgt =
    (case tgt of
       WholeScope \<Rightarrow> None
     | Service t \<Rightarrow>
         (case resolve (index cv) (effectiveNamespace cv p) (serviceName t) of
            Inl e \<Rightarrow> None
          | Inr sel \<Rightarrow> Some sel))"

text \<open>
  Modelled from the spec: step 4, the mTLS mode. No peer method: no PeerAuthentication;
  one \<open>MutualTLS\<close>: Permissive if \<open>peerIsOptional\<close>, else Strict. (More than one peer
  method is an error of step 3.)
\<close>

definition mtlsMode :: "LegacyPolicy \<Rightarrow> Mode option" where
  "mtlsMode p =
    (case peerMethods p of
       [] \<Rightarrow> None
     | [m] \<Rightarrow> Some (if peerIsOptional p then Permissive else Strict)
     | m # m' # ms \<Rightarrow> None)"

text \<open>
  Modelled from the spec: step 5, one JwtRule for each origin method, with its issuer,
  \<open>jwksUri\<close>, audiences and headers.
\<close>

definition jwtRules :: "LegacyPolicy \<Rightarrow> JwtRule list" where
  "jwtRules p =
    map (\<lambda>m. \<lparr>issuer = issuer m, jwksUri = jwksUri m, audiences = audiences m,
              jwtHeaders = jwtHeaders m\<rparr>) (originMethods p)"

text \<open>
  Modelled from the spec: steps 4 to 6, what one target gets, in the order of the
  reference output: the PeerAuthentication if there is a mode; the RequestAuthentication
  unless there is no JwtRule; and, for \<open>UseOrigin\<close> with at least one JwtRule, one
  AuthorizationPolicy with action Deny and one rule that requires a request principal.
\<close>

definition targetSpecs :: "LegacyPolicy \<Rightarrow> ResourceSpec list" where
  "targetSpecs p =
    (case mtlsMode p of None \<Rightarrow> [] | Some m \<Rightarrow> [PeerAuthentication m])
    @ (if jwtRules p = [] then [] else [RequestAuthentication (jwtRules p)])
    @ (if principalBinding p = UseOrigin \<and> jwtRules p \<noteq> [] then
         [AuthorizationPolicy Deny [\<lparr>requiresRequestPrincipal = True\<rparr>]]
       else [])"

text \<open>
  Modelled from the spec: the warning of step 3, one for each origin method with
  trigger rules (its rule is applied to the whole scope).
\<close>

definition triggerWarnings :: "LegacyPolicy \<Rightarrow> string list" where
  "triggerWarnings p =
    map (\<lambda>m. ''TriggerRuleApproximated: '' @ issuer m)
      (filter (\<lambda>m. triggerRules m \<noteq> []) (originMethods p))"

text \<open>
  Modelled from the spec: step 7, the name of a resource: the name of the policy, then
  \<open>-\<close> and the name of the service unless the target is the implicit one.
\<close>

definition targetName :: "LegacyPolicy \<Rightarrow> ConversionTarget \<Rightarrow> string" where
  "targetName p tgt =
    (case tgt of WholeScope \<Rightarrow> name p | Service t \<Rightarrow> name p @ ''-'' @ serviceName t)"

text \<open>
  Modelled from the spec: step 7, the provenance annotation: the namespace and name of
  the policy and the service of the target, in the wording of the reference output.
\<close>

definition provenance :: "LegacyPolicy \<Rightarrow> ConversionTarget \<Rightarrow> string" where
  "provenance p tgt =
    ''converted from alpha authentication policy '' @ namespace p @ ''/'' @ name p
      @ (case tgt of WholeScope \<Rightarrow> [] | Service t \<Rightarrow> '', service '' @ serviceName t)"

text \<open>
  Modelled from the spec: step 7, the resource of a target with a given kind.
\<close>

definition targetResource ::
  "Converter \<Rightarrow> LegacyPolicy \<Rightarrow> ConversionTarget \<Rightarrow> ResourceSpec \<Rightarrow> GeneratedResource" where
  "targetResource cv p tgt sp =
    \<lparr>resourceName = targetName p tgt,
     resourceNamespace = effectiveNamespace cv p,
     selector = targetSelector cv p tgt,
     provenanceAnnotation = provenance p tgt,
     spec = sp\<rparr>"

text \<open>
  Modelled from the spec: the resources of one target (steps 2 to 7). A target with an
  error gets no resource, and neither does a target of a policy with more than one
  peer method; the other targets are converted all the same.
\<close>

definition convertTarget ::
  "Converter \<Rightarrow> LegacyPolicy \<Rightarrow> ConversionTarget \<Rightarrow> GeneratedResource list" where
  "convertTarget cv p tgt =
    (if peerMethodErrors p \<noteq> [] \<or> targetErrors cv p tgt \<noteq> [] then []
     else map (targetResource cv p tgt) (targetSpecs p))"

text \<open>
  Modelled from the spec: \<open>Convert\<close>, the Policy Converter (4.3), whose code is
  missing. Every target of the target set is converted; the resources of the targets
  are collected in their order, and so is every error: the one of the policy, then the
  ones of each target. The warnings are the ones of the origin methods.
\<close>

definition ConvertPolicy ::
  "Converter \<Rightarrow> LegacyPolicy \<Rightarrow> GeneratedResource list \<times> ConversionSummary" where
  "ConvertPolicy cv p =
    (concat (map (convertTarget cv p) (targetSet p)),
     \<lparr>errors = peerMethodErrors p @ concat (map (targetErrors cv p) (targetSet p)),
      warnings = triggerWarnings p\<rparr>)"

definition isPeerAuthentication :: "GeneratedResource \<Rightarrow> bool" where
  "isPeerAuthentication r = (case spec r of PeerAuthentication m \<Rightarrow> True | _ \<Rightarrow> False)"

definition isRequestAuthentication :: "GeneratedResource \<Rightarrow> bool" where
  "isRequestAuthentication r = (case spec r of RequestAuthentication js \<Rightarrow> True | _ \<Rightarrow> False)"


text \<open>
  The targets that can be converted, in the words of the spec: the implicit target, and
  a service whose selector resolves (the index has the service of that name in the
  effective namespace, with a pod selector) and that names no ports.
\<close>

definition convertible :: "Converter \<Rightarrow> LegacyPolicy \<Rightarrow> ConversionTarget \<Rightarrow> bool" where
  "convertible cv p tgt =
    (case tgt of
       WholeScope \<Rightarrow> True
     | Service t \<Rightarrow>
         (case index cv (effectiveNamespace cv p, serviceName t) of
            None \<Rightarrow> False
          | Some sel \<Rightarrow> sel \<noteq> [])
         \<and> ports t = None)"

section \<open>A cluster, a host and policies to run the definitions on\<close>

text \<open>
  The policy \<open>foo/jwt-basic\<close> of the reference output, and the selector index of a
  cluster with the services \<open>httpbin\<close> and \<open>sleep\<close> in the namespace \<open>foo\<close>.
\<close>

definition jwtBasic :: LegacyPolicy where
  "jwtBasic =
    \<lparr>name = ''jwt-basic'', namespace = ''foo'', peerIsOptional = True,
     peerMethods = [MutualTLS], originIsOptional = False,
     originMethods =
       [\<lparr>issuer = ''testing@secure.istio.io'',
         jwksUri = ''https://raw.githubusercontent.com/istio/istio/release-1.4/''
                     @ ''security/tools/jwt/samples/jwks.json'',
         audiences = {}, jwtHeaders = [], triggerRules = []\<rparr>],
     principalBinding = UseOrigin,
     targets = [\<lparr>serviceName = ''httpbin'', ports = None\<rparr>]\<rparr>"

definition exampleIndex :: SelectorIndex where
  "exampleIndex =
    [(''foo'', ''httpbin'') \<mapsto> [(''app'', ''httpbin'')],
     (''foo'', ''sleep'') \<mapsto> [(''app'', ''sleep'')]]"

definition exampleConverter :: Converter where
  "exampleConverter = \<lparr>root = ''istio-system'', index = exampleIndex\<rparr>"

text \<open>The three documents of the reference output (the file \<open>part_000\<close>), in its order.\<close>

definition referenceFixture :: "GeneratedResource list" where
  "referenceFixture =
    [\<lparr>resourceName = ''jwt-basic-httpbin'', resourceNamespace = ''foo'',
      selector = Some [(''app'', ''httpbin'')],
      provenanceAnnotation =
        ''converted from alpha authentication policy foo/jwt-basic, service httpbin'',
      spec = PeerAuthentication Permissive\<rparr>,
     \<lparr>resourceName = ''jwt-basic-httpbin'', resourceNamespace = ''foo'',
      selector = Some [(''app'', ''httpbin'')],
      provenanceAnnotation =
        ''converted from alpha authentication policy foo/jwt-basic, service httpbin'',
      spec = RequestAuthentication
        [\<lparr>issuer = ''testing@secure.istio.io'',
          jwksUri = ''https://raw.githubusercontent.com/istio/istio/release-1.4/''
                      @ ''security/tools/jwt/samples/jwks.json'',
          audiences = {}, jwtHeaders = []\<rparr>]\<rparr>,
     \<lparr>resourceName = ''jwt-basic-httpbin'', resourceNamespace = ''foo'',
      selector = Some [(''app'', ''httpbin'')],
      provenanceAnnotation =
        ''converted from alpha authentication policy foo/jwt-basic, service httpbin'',
      spec = AuthorizationPolicy Deny [\<lparr>requiresRequestPrincipal = True\<rparr>]\<rparr>]"

text \<open>
  A policy whose only target names a service that the cluster does not have, and the
  policy \<open>jwt-basic\<close> with a second target.
\<close>

definition ghostPolicy :: LegacyPolicy where
  "ghostPolicy =
    \<lparr>name = ''ghost'', namespace = ''foo'', peerIsOptional = True,
     peerMethods = [MutualTLS], originIsOptional = False, originMethods = [],
     principalBinding = Unspecified,
     targets = [\<lparr>serviceName = ''missing'', ports = None\<rparr>]\<rparr>"

definition twoTargets :: LegacyPolicy where
  "twoTargets =
    jwtBasic\<lparr>targets := [\<lparr>serviceName = ''httpbin'', ports = None\<rparr>,
                         \<lparr>serviceName = ''sleep'', ports = None\<rparr>]\<rparr>"

text \<open>
  The policy \<open>jwt-basic\<close> with the other two principal bindings, and with a target
  that names a port.
\<close>

definition usePeerPolicy :: LegacyPolicy where
  "usePeerPolicy = jwtBasic\<lparr>principalBinding := UsePeer\<rparr>"

definition unspecifiedPolicy :: LegacyPolicy where
  "unspecifiedPolicy = jwtBasic\<lparr>principalBinding := Unspecified\<rparr>"

definition portPolicy :: LegacyPolicy where
  "portPolicy = jwtBasic\<lparr>targets := [\<lparr>serviceName = ''httpbin'', ports = Some {8000}\<rparr>]\<rparr>"

text \<open>The policy \<open>jwt-basic\<close> with a mandatory peer method.\<close>

definition strictPolicy :: LegacyPolicy where
  "strictPolicy = jwtBasic\<lparr>peerIsOptional := False\<rparr>"

text \<open>The policy \<open>jwt-basic\<close> without peer method.\<close>

definition noPeerPolicy :: LegacyPolicy where
  "noPeerPolicy = jwtBasic\<lparr>peerMethods := []\<rparr>"

text \<open>
  A package for the runs: the converter above, a decoder that fails on an object without
  content, a one-line rendering of a resource, and \<open>fmt.Printf\<close> as it is on a format
  string without verbs.
\<close>

definition exampleYAML :: "GeneratedResource \<Rightarrow> string" where
  "exampleYAML r =
    (case spec r of
       PeerAuthentication m \<Rightarrow> ''PeerAuthentication ''
     | RequestAuthentication js \<Rightarrow> ''RequestAuthentication ''
     | AuthorizationPolicy a rs \<Rightarrow> ''AuthorizationPolicy '')
    @ resourceNamespace r @ ''/'' @ resourceName r @ [CHR 0x0A]"

definition examplePackage ::
  "bool \<Rightarrow> (LegacyPolicy option, SelectorIndex, LegacyPolicy, GeneratedResource, Converter) package"
where
  "examplePackage flag =
    \<lparr>newConverter = (\<lambda>rootNs services. \<lparr>root = rootNs, index = services\<rparr>),
     Convert = ConvertPolicy,
     convertToPolicy =
       (\<lambda>item. case Object item of
                  None \<Rightarrow> Inl (Err ''policy has no spec'')
                | Some p \<Rightarrow> Inr p),
     toYAML = exampleYAML,
     ignoreError = flag,
     Printf = (\<lambda>format. format)\<rparr>"

definition jwtBasicItem :: "LegacyPolicy option Unstructured" where
  "jwtBasicItem =
    \<lparr>GetKind = ''Policy'', GetNamespace = ''foo'', GetName = ''jwt-basic'',
     Object = Some jwtBasic\<rparr>"

definition ghostItem :: "LegacyPolicy option Unstructured" where
  "ghostItem =
    \<lparr>GetKind = ''Policy'', GetNamespace = ''foo'', GetName = ''ghost'',
     Object = Some ghostPolicy\<rparr>"

definition brokenItem :: "LegacyPolicy option Unstructured" where
  "brokenItem =
    \<lparr>GetKind = ''Policy'', GetNamespace = ''foo'', GetName = ''broken'', Object = None\<rparr>"

definition roleItem :: "LegacyPolicy option Unstructured" where
  "roleItem =
    \<lparr>GetKind = ''ServiceRole'', GetNamespace = ''foo'', GetName = ''viewer'', Object = None\<rparr>"

text \<open>
  A cluster with the namespace \<open>istio-system\<close>, the given namespace-scoped policies and
  the given service roles; the other kinds are not served.
\<close>

definition exampleCluster ::
  "LegacyPolicy option Unstructured list \<Rightarrow> LegacyPolicy option Unstructured list
    \<Rightarrow> (LegacyPolicy option, SelectorIndex) kubeClient"
where
  "exampleCluster policies roles =
    \<lparr>dynamicClient =
       \<lparr>List = (\<lambda>gvr. if Resource gvr = ''policies'' then Inr policies
                       else if Resource gvr = ''serviceroles'' then Inr roles
                       else Inl (NotFound ''the server could not find the requested resource''))\<rparr>,
     kubeClient =
       \<lparr>NamespacesGet = (\<lambda>n. (n = ''istio-system'', None)),
        ConfigMapsGet = (\<lambda>ns n. Inl (NotFound ''configmaps not found'')),
        ServicesList = Inr exampleIndex\<rparr>,
     rootNamespace = ''istio-system''\<rparr>"

text \<open>
  A host whose cluster has the mesh configuration \<open>rootNamespace: istio-config\<close>.
\<close>

definition exampleClientset :: "SelectorIndex Clientset" where
  "exampleClientset =
    \<lparr>NamespacesGet = (\<lambda>n. (n = ''istio-system'', None)),
     ConfigMapsGet =
       (\<lambda>ns n. if ns = ''istio-system'' \<and> n = ''istio''
                then Inr [''mesh'' \<mapsto> ''rootNamespace: istio-config'']
                else Inl (NotFound ''configmaps not found'')),
     ServicesList = Inr exampleIndex\<rparr>"

definition exampleDynamic :: "LegacyPolicy option DynamicClient" where
  "exampleDynamic = \<lparr>List = (\<lambda>gvr. Inr [])\<rparr>"

definition exampleHost :: "(unit, LegacyPolicy option, SelectorIndex) host" where
  "exampleHost =
    \<lparr>Stat = (\<lambda>path. Inl (Err ''no such file or directory'')),
     ClientConfig = (\<lambda>kubeconfig configContext. Inr ()),
     dynamicNewForConfig = (\<lambda>config. Inr exampleDynamic),
     kubernetesNewForConfig = (\<lambda>config. Inr exampleClientset),
     YAMLToJSON = (\<lambda>y. Inr y),
     Unmarshal =
       (\<lambda>j. if j = ''rootNamespace: istio-config''
             then Inr [''rootNamespace'' \<mapsto> JString ''istio-config'']
             else Inl (Err ''invalid character''))\<rparr>"

text \<open>The same host on a cluster without the config map of the mesh.\<close>

definition bareHost :: "(unit, LegacyPolicy option, SelectorIndex) host" where
  "bareHost =
    exampleHost\<lparr>kubernetesNewForConfig := (\<lambda>config. Inr (kubeClient (exampleCluster [] [])))\<rparr>"

section \<open>Properties of the construction\<close>

lemma istioNamespace_nonempty: "istioNamespace \<noteq> []"
  by (simp add: istioNamespace_def)

lemma setRootnamespace_ok:
  assumes "setRootnamespace h kc = (None, kc', lg)" and "rootNamespace kc = []"
  shows "rootNamespace kc' =
           (case configuredRootNamespace h (kubeClient kc) of
              Some v \<Rightarrow> v | None \<Rightarrow> istioNamespace)"
  using assms
  by (auto simp: setRootnamespace_def configuredRootNamespace_def istioNamespace_nonempty
      split: sum.splits option.splits if_splits json.splits prod.splits)

lemma configuredRootNamespace_nonempty:
  "configuredRootNamespace h cs = Some v \<Longrightarrow> v \<noteq> []"
  by (auto simp: configuredRootNamespace_def
      split: sum.splits option.splits if_splits json.splits)

lemma newKubeClient_ok:
  assumes "newKubeClient h kubeconfig configContext = Inr kc"
  shows "rootNamespace kc =
           (case configuredRootNamespace h (kubeClient kc) of
              Some v \<Rightarrow> v | None \<Rightarrow> istioNamespace)"
proof -
  from assms obtain dc cs lg where
    s: "setRootnamespace h \<lparr>dynamicClient = dc, kubeClient = cs, rootNamespace = []\<rparr>
          = (None, kc, lg)"
    by (auto simp: newKubeClient_def Let_def split: sum.splits option.splits if_splits prod.splits)
  have k: "kubeClient kc = cs"
    using s
    by (auto simp: setRootnamespace_def Let_def
        split: sum.splits option.splits if_splits json.splits prod.splits)
  from setRootnamespace_ok [OF s] k show ?thesis by simp
qed

text \<open>
  Claim C10. Whenever \<open>newKubeClient\<close> returns a client and no error, the root
  namespace of the client is not empty: it is the value of \<open>rootNamespace\<close> in the mesh
  configuration when that value is a non-empty string, and \<open>istio-system\<close> otherwise,
  also when the config map of the mesh does not exist.
\<close>

theorem newKubeClient_rootNamespace:
  assumes "newKubeClient h kubeconfig configContext = Inr kc"
  shows "rootNamespace kc \<noteq> [] \<and>
         rootNamespace kc =
           (case configuredRootNamespace h (kubeClient kc) of
              Some v \<Rightarrow> v | None \<Rightarrow> istioNamespace) \<and>
         (\<forall>err. ConfigMapsGet (kubeClient kc) istioNamespace meshConfigMapName = Inl err
            \<longrightarrow> rootNamespace kc = istioNamespace)"
proof -
  note r = newKubeClient_ok [OF assms]
  have "rootNamespace kc \<noteq> []"
    using r configuredRootNamespace_nonempty [of h "kubeClient kc"] istioNamespace_nonempty
    by (cases "configuredRootNamespace h (kubeClient kc)") auto
  moreover have "\<forall>err. ConfigMapsGet (kubeClient kc) istioNamespace meshConfigMapName = Inl err
      \<longrightarrow> rootNamespace kc = istioNamespace"
    using r by (auto simp: configuredRootNamespace_def)
  ultimately show ?thesis using r by blast
qed

theorem newKubeClient_rootNamespace_witness:
  "newKubeClient exampleHost [] [] =
     Inr \<lparr>dynamicClient = exampleDynamic, kubeClient = exampleClientset,
          rootNamespace = ''istio-config''\<rparr> \<and>
   configuredRootNamespace exampleHost exampleClientset = Some ''istio-config'' \<and>
   newKubeClient bareHost [] [] =
     Inr \<lparr>dynamicClient = exampleDynamic, kubeClient = kubeClient (exampleCluster [] []),
          rootNamespace = ''istio-system''\<rparr> \<and>
   ConfigMapsGet (kubeClient (exampleCluster [] [])) istioNamespace meshConfigMapName =
     Inl (NotFound ''configmaps not found'')"
proof -
  have h: "newKubeClient exampleHost [] [] =
     Inr \<lparr>dynamicClient = exampleDynamic, kubeClient = exampleClientset,
          rootNamespace = ''istio-config''\<rparr>"
    by (simp add: newKubeClient_def setRootnamespace_def exampleHost_def exampleClientset_def
        istioNamespace_def meshConfigMapName_def meshConfigMapKey_def)
  have c: "configuredRootNamespace exampleHost exampleClientset = Some ''istio-config''"
    by (simp add: configuredRootNamespace_def exampleHost_def exampleClientset_def
        istioNamespace_def meshConfigMapName_def meshConfigMapKey_def)
  have g: "ConfigMapsGet (kubeClient (exampleCluster [] [])) istioNamespace meshConfigMapName =
     Inl (NotFound ''configmaps not found'')"
    by (simp add: exampleCluster_def)
  have b: "newKubeClient bareHost [] [] =
     Inr \<lparr>dynamicClient = exampleDynamic, kubeClient = kubeClient (exampleCluster [] []),
          rootNamespace = istioNamespace\<rparr>"
    using g by (simp add: newKubeClient_def setRootnamespace_def bareHost_def exampleHost_def)
  from newKubeClient_rootNamespace [OF h] newKubeClient_rootNamespace [OF b] h c g b
  show ?thesis by (simp add: istioNamespace_def)
qed

section \<open>Properties of the loops of the run\<close>


lemma convertItems_Inr:
  "convertItems d cv items st = Inr st' \<Longrightarrow>
     (\<forall>item \<in> set items. decodes d item) \<and>
     hasError st' = (hasError st \<or> (\<exists>item \<in> set items. summaryErrors d cv item \<noteq> [])) \<and>
     betaPolicyOutput st' = betaPolicyOutput st @
        concat (map (\<lambda>item. if summaryErrors d cv item = [] then resourcesYAML d cv item else []) items) \<and>
     logged st' = logged st @ map (itemLine d cv) items"
proof (induction items arbitrary: st)
  case Nil
  then show ?case by simp
next
  case (Cons item items)
  show ?case
  proof (cases "convertToPolicy d item")
    case (Inl err)
    with Cons.prems show ?thesis by simp
  next
    case (Inr policy)
    obtain outp summary where c: "Convert d cv policy = (outp, summary)"
      by (cases "Convert d cv policy")
    show ?thesis
    proof (cases "errors summary = []")
      case True
      with Cons.prems Inr c have
        "convertItems d cv items
           (st\<lparr>betaPolicyOutput := betaPolicyOutput st @ concat (map (toYAML d) outp),
               logged := logged st @ [successLine item]\<rparr>) = Inr st'"
        by simp
      from Cons.IH [OF this] Inr c True show ?thesis
        by (simp add: decodes_def summaryErrors_def resourcesYAML_def itemLine_def)
    next
      case False
      with Cons.prems Inr c have
        "convertItems d cv items
           (st\<lparr>hasError := True, logged := logged st @ [failedLine item (errors summary)]\<rparr>) = Inr st'"
        by simp
      from Cons.IH [OF this] Inr c False show ?thesis
        by (simp add: decodes_def summaryErrors_def resourcesYAML_def itemLine_def)
    qed
  qed
qed

lemma convertItems_decodes:
  "\<forall>item \<in> set items. decodes d item \<Longrightarrow> \<exists>st'. convertItems d cv items st = Inr st'"
proof (induction items arbitrary: st)
  case Nil
  then show ?case by simp
next
  case (Cons item items)
  then show ?case
    by (auto simp: decodes_def split: sum.splits prod.splits)
qed

lemma convertItems_Inl:
  "convertItems d cv items st = Inl (e, lg) \<Longrightarrow>
     \<exists>pre item post err. items = pre @ item # post \<and> (\<forall>i \<in> set pre. decodes d i) \<and>
        convertToPolicy d item = Inl err \<and>
        e = Errorf ''failed to convert resource to authentication policy: '' err \<and>
        lg = logged st @ map (itemLine d cv) pre"
proof (induction items arbitrary: st)
  case Nil
  then show ?case by simp
next
  case (Cons item items)
  show ?case
  proof (cases "convertToPolicy d item")
    case (Inl err)
    with Cons.prems have "e = Errorf ''failed to convert resource to authentication policy: '' err"
      and "lg = logged st" by simp_all
    with Inl show ?thesis by (intro exI [of _ "[]"] exI [of _ item] exI [of _ items] exI [of _ err]) simp
  next
    case (Inr policy)
    obtain outp summary where c: "Convert d cv policy = (outp, summary)"
      by (cases "Convert d cv policy")
    define st1 where "st1 = (if errors summary \<noteq> [] then
        st\<lparr>hasError := True, logged := logged st @ [failedLine item (errors summary)]\<rparr>
      else st\<lparr>betaPolicyOutput := betaPolicyOutput st @ concat (map (toYAML d) outp),
               logged := logged st @ [successLine item]\<rparr>)"
    from Cons.prems Inr c have "convertItems d cv items st1 = Inl (e, lg)"
      by (simp add: st1_def split: if_splits)
    from Cons.IH [OF this] obtain pre it post err where
      h: "items = pre @ it # post" "\<forall>i \<in> set pre. decodes d i" "convertToPolicy d it = Inl err"
         "e = Errorf ''failed to convert resource to authentication policy: '' err"
         "lg = logged st1 @ map (itemLine d cv) pre"
      by blast
    have l: "logged st1 = logged st @ [itemLine d cv item]"
      using Inr c by (simp add: st1_def itemLine_def summaryErrors_def)
    show ?thesis
      using h l Inr
      by (intro exI [of _ "item # pre"] exI [of _ it] exI [of _ post] exI [of _ err])
         (simp add: decodes_def)
  qed
qed


lemma listed_Nil: "listed kc [] = []"
  by (simp add: listed_def)

lemma listed_Cons:
  "listed kc (gvr # gvrs) =
     (case listResources kc gvr of Inl err \<Rightarrow> [] | Inr items \<Rightarrow> items) @ listed kc gvrs"
  by (simp add: listed_def)

lemma listed_member:
  "gvr \<in> set gvrs \<Longrightarrow> listResources kc gvr = Inr items \<Longrightarrow> item \<in> set items
     \<Longrightarrow> item \<in> set (listed kc gvrs)"
  by (force simp: listed_def)

lemma convertPolicies_Inr:
  "convertPolicies d kc cv gvrs st = Inr st' \<Longrightarrow>
     (\<forall>item \<in> set (listed kc gvrs). decodes d item) \<and>
     hasError st' = (hasError st \<or> (\<exists>item \<in> set (listed kc gvrs). summaryErrors d cv item \<noteq> [])) \<and>
     betaPolicyOutput st' = betaPolicyOutput st @
        concat (map (\<lambda>item. if summaryErrors d cv item = [] then resourcesYAML d cv item else [])
                  (listed kc gvrs)) \<and>
     logged st' = logged st @ concat (map (policyLines d kc cv) gvrs)"
proof (induction gvrs arbitrary: st)
  case Nil
  then show ?case by (simp add: listed_Nil)
next
  case (Cons gvr gvrs)
  show ?case
  proof (cases "listResources kc gvr")
    case (Inl err)
    with Cons.prems have
      "convertPolicies d kc cv gvrs (st\<lparr>logged := logged st @ [skippedLine gvr err]\<rparr>) = Inr st'"
      by simp
    from Cons.IH [OF this] Inl show ?thesis
      by (simp add: listed_Cons policyLines_def)
  next
    case (Inr items)
    with Cons.prems obtain st1 where
      a: "convertItems d cv items st = Inr st1" and b: "convertPolicies d kc cv gvrs st1 = Inr st'"
      by (auto split: sum.splits)
    from convertItems_Inr [OF a] Cons.IH [OF b] Inr show ?thesis
      by (auto simp: listed_Cons policyLines_def)
  qed
qed

lemma convertPolicies_decodes:
  "\<forall>item \<in> set (listed kc gvrs). decodes d item \<Longrightarrow> \<exists>st'. convertPolicies d kc cv gvrs st = Inr st'"
proof (induction gvrs arbitrary: st)
  case Nil
  then show ?case by simp
next
  case (Cons gvr gvrs)
  show ?case
  proof (cases "listResources kc gvr")
    case (Inl err)
    with Cons show ?thesis by (simp add: listed_Cons)
  next
    case (Inr items)
    with Cons.prems have "\<forall>item \<in> set items. decodes d item" by (simp add: listed_Cons)
    from convertItems_decodes [OF this] obtain st1 where "convertItems d cv items st = Inr st1"
      by blast
    with Cons Inr show ?thesis by (simp add: listed_Cons)
  qed
qed

lemma convertPolicies_Inl_first:
  "convertPolicies d kc cv gvrs st = Inl (e, lg) \<Longrightarrow>
     \<exists>gs gvr' gs' pre item' post err'.
        gvrs = gs @ gvr' # gs' \<and> listResources kc gvr' = Inr (pre @ item' # post) \<and>
        (\<forall>i \<in> set (listed kc gs @ pre). decodes d i) \<and>
        convertToPolicy d item' = Inl err' \<and>
        e = Errorf ''failed to convert resource to authentication policy: '' err' \<and>
        lg = logged st @ concat (map (policyLines d kc cv) gs) @ map (itemLine d cv) pre"
proof (induction gvrs arbitrary: st)
  case Nil
  then show ?case by simp
next
  case (Cons gvr gvrs)
  show ?case
  proof (cases "listResources kc gvr")
    case (Inl err)
    with Cons.prems have
      "convertPolicies d kc cv gvrs (st\<lparr>logged := logged st @ [skippedLine gvr err]\<rparr>) = Inl (e, lg)"
      by simp
    from Cons.IH [OF this] obtain gs gvr' gs' pre item' post err' where
      h: "gvrs = gs @ gvr' # gs'" "listResources kc gvr' = Inr (pre @ item' # post)"
         "\<forall>i \<in> set (listed kc gs @ pre). decodes d i" "convertToPolicy d item' = Inl err'"
         "e = Errorf ''failed to convert resource to authentication policy: '' err'"
         "lg = logged (st\<lparr>logged := logged st @ [skippedLine gvr err]\<rparr>)
                @ concat (map (policyLines d kc cv) gs) @ map (itemLine d cv) pre"
      by blast
    have pl: "policyLines d kc cv gvr = [skippedLine gvr err]"
      using Inl by (simp add: policyLines_def)
    show ?thesis
      apply (rule exI [of _ "gvr # gs"], rule exI [of _ gvr'], rule exI [of _ gs'],
          rule exI [of _ pre], rule exI [of _ item'], rule exI [of _ post],
          rule exI [of _ err'])
      using h Inl pl by (simp add: listed_Cons)
  next
    case (Inr items)
    show ?thesis
    proof (cases "convertItems d cv items st")
      case (Inl el)
      with Cons.prems Inr have "convertItems d cv items st = Inl (e, lg)" by simp
      from convertItems_Inl [OF this] obtain pre item' post err' where
        h: "items = pre @ item' # post" "\<forall>i \<in> set pre. decodes d i"
           "convertToPolicy d item' = Inl err'"
           "e = Errorf ''failed to convert resource to authentication policy: '' err'"
           "lg = logged st @ map (itemLine d cv) pre"
        by blast
      show ?thesis
        apply (rule exI [of _ "[]"], rule exI [of _ gvr], rule exI [of _ gvrs],
          rule exI [of _ pre], rule exI [of _ item'], rule exI [of _ post],
          rule exI [of _ err'])
      using h Inr by (simp add: listed_Nil)
    next
      case r: (Inr st1)
      with Cons.prems Inr have "convertPolicies d kc cv gvrs st1 = Inl (e, lg)" by simp
      from Cons.IH [OF this] obtain gs gvr' gs' pre item' post err' where
        h: "gvrs = gs @ gvr' # gs'" "listResources kc gvr' = Inr (pre @ item' # post)"
           "\<forall>i \<in> set (listed kc gs @ pre). decodes d i" "convertToPolicy d item' = Inl err'"
           "e = Errorf ''failed to convert resource to authentication policy: '' err'"
           "lg = logged st1 @ concat (map (policyLines d kc cv) gs) @ map (itemLine d cv) pre"
        by blast
      note i = convertItems_Inr [OF r]
      have pl: "policyLines d kc cv gvr = map (itemLine d cv) items"
        using Inr by (simp add: policyLines_def)
      show ?thesis
        apply (rule exI [of _ "gvr # gs"], rule exI [of _ gvr'], rule exI [of _ gs'],
          rule exI [of _ pre], rule exI [of _ item'], rule exI [of _ post],
          rule exI [of _ err'])
        using h Inr i pl by (auto simp: listed_Cons)
    qed
  qed
qed

lemma collectRbac_listed:
  "collectRbac kc gvrs rbacResources = rbacResources @ map rbacEntry (listed kc gvrs)"
  by (induction gvrs arbitrary: rbacResources) (auto simp: listed_Nil listed_Cons split: sum.splits)


lemma convert_reached:
  assumes "hasIstioNamespace kc" and "ServicesList (kubeClient kc) = Inr services"
    and "convertPolicies d kc (newConverter d (rootNamespace kc) services) gvrPolicies
           \<lparr>hasError = False, betaPolicyOutput = [], logged = []\<rparr> = Inr st"
  shows "convert d kc =
    (let rbacResources = map rbacEntry (listed kc gvrRbac);
         lines = logged st @ (if rbacResources \<noteq> [] then [rbacLine rbacResources] else [])
     in if hasError st \<or> rbacResources \<noteq> [] then
          (if ignoreError d then
             \<lparr>ret = None, stdout = Printf d (betaPolicyOutput st), logs = lines @ [ignoredLine]\<rparr>
           else
             \<lparr>ret = Some (Err (''conversion failed, found errors during conversion, ''
                      @ ''please fix errors and re-run the tool again'')),
              stdout = [], logs = lines\<rparr>)
        else \<lparr>ret = None, stdout = Printf d (betaPolicyOutput st), logs = lines\<rparr>)"
  using assms by (simp add: convert_def Let_def collectRbac_listed)

lemma convert_aborted:
  assumes "hasIstioNamespace kc" and "ServicesList (kubeClient kc) = Inr services"
    and "convertPolicies d kc (newConverter d (rootNamespace kc) services) gvrPolicies
           \<lparr>hasError = False, betaPolicyOutput = [], logged = []\<rparr> = Inl (e, lg)"
  shows "convert d kc = \<lparr>ret = Some e, stdout = [], logs = lg\<rparr>"
  using assms by (simp add: convert_def)

lemma convert_complete:
  assumes "hasIstioNamespace kc" and "ServicesList (kubeClient kc) = Inr services"
    and "converter = newConverter d (rootNamespace kc) services"
    and "\<forall>item \<in> set (listed kc gvrPolicies). decodes d item"
  shows "\<exists>st::run_state. convert d kc =
      (let rbacResources = map rbacEntry (listed kc gvrRbac);
           lines = logged st @ (if rbacResources \<noteq> [] then [rbacLine rbacResources] else [])
       in if hasError st \<or> rbacResources \<noteq> [] then
            (if ignoreError d then
               \<lparr>ret = None, stdout = Printf d (betaPolicyOutput st), logs = lines @ [ignoredLine]\<rparr>
             else
               \<lparr>ret = Some (Err (''conversion failed, found errors during conversion, ''
                        @ ''please fix errors and re-run the tool again'')),
                stdout = [], logs = lines\<rparr>)
          else \<lparr>ret = None, stdout = Printf d (betaPolicyOutput st), logs = lines\<rparr>) \<and>
      hasError st = (\<exists>item \<in> set (listed kc gvrPolicies). summaryErrors d converter item \<noteq> []) \<and>
      betaPolicyOutput st =
        concat (map (\<lambda>item. if summaryErrors d converter item = []
                             then resourcesYAML d converter item else [])
                  (listed kc gvrPolicies)) \<and>
      logged st = concat (map (policyLines d kc converter) gvrPolicies)"
proof -
  from convertPolicies_decodes [OF assms(4)] obtain st where
    s: "convertPolicies d kc converter gvrPolicies
          \<lparr>hasError = False, betaPolicyOutput = [], logged = []\<rparr> = Inr st"
    by blast
  from convert_reached [OF assms(1,2) s [unfolded assms(3)]] convertPolicies_Inr [OF s]
  show ?thesis by (intro exI [of _ st]) simp
qed

lemma failedLine_logged:
  assumes "item \<in> set (listed kc gvrs)" and "summaryErrors d converter item \<noteq> []"
  shows "failedLine item (summaryErrors d converter item)
           \<in> set (concat (map (policyLines d kc converter) gvrs))"
proof -
  from assms(1) obtain gvr where g: "gvr \<in> set gvrs"
    and i: "item \<in> set (case listResources kc gvr of Inl err \<Rightarrow> [] | Inr items \<Rightarrow> items)"
    by (auto simp: listed_def)
  from i obtain items where l: "listResources kc gvr = Inr items" and m: "item \<in> set items"
    by (cases "listResources kc gvr") auto
  have "itemLine d converter item \<in> set (policyLines d kc converter gvr)"
    using l m by (simp add: policyLines_def)
  with g assms(2) show ?thesis by (auto simp: itemLine_def)
qed

section \<open>The text of the logged lines\<close>

lemma digit_chars:
  "digit 0 = CHR ''0''" "digit 1 = CHR ''1''" "digit 2 = CHR ''2''" "digit 3 = CHR ''3''"
  "digit 4 = CHR ''4''" "digit 5 = CHR ''5''" "digit 6 = CHR ''6''" "digit 7 = CHR ''7''"
  "digit 8 = CHR ''8''" "digit 9 = CHR ''9''" "digit (Suc 0) = CHR ''1''"
  by (simp_all add: digit_def char_of_def bit_iff_odd)

lemmas line_defs =
  failedLine_def successLine_def skippedLine_def rbacLine_def rbacEntry_def ignoredLine_def
  bullet_def


section \<open>The example runs\<close>

lemmas example_defs =
  examplePackage_def exampleCluster_def jwtBasicItem_def ghostItem_def brokenItem_def roleItem_def
  jwtBasic_def ghostPolicy_def twoTargets_def exampleIndex_def exampleConverter_def

lemmas converter_defs =
  ConvertPolicy_def targetSet_def convertTarget_def targetErrors_def targetSelector_def
  resolve_def effectiveNamespace_def peerMethodErrors_def resolveErrorLine_def targetSpecs_def
  mtlsMode_def jwtRules_def triggerWarnings_def targetName_def provenance_def
  targetResource_def

lemmas run_defs =
  convert_def hasIstioNamespace_def listResources_def istioNamespace_def gvrPolicies_def
  gvrRbac_def Errorf_def

lemma example_converter:
  "newConverter (examplePackage flag) (rootNamespace (exampleCluster ps rs)) exampleIndex
     = exampleConverter"
  by (simp add: examplePackage_def exampleCluster_def exampleConverter_def)

lemma example_listed_policies: "listed (exampleCluster ps rs) gvrPolicies = ps"
  by (simp add: listed_def listResources_def exampleCluster_def gvrPolicies_def)

lemma example_listed_rbac: "listed (exampleCluster ps rs) gvrRbac = rs"
  by (simp add: listed_def listResources_def exampleCluster_def gvrRbac_def)

lemma example_namespace: "hasIstioNamespace (exampleCluster ps rs)"
  by (simp add: hasIstioNamespace_def exampleCluster_def istioNamespace_def)

lemma example_services: "ServicesList (kubeClient (exampleCluster ps rs)) = Inr exampleIndex"
  by (simp add: exampleCluster_def)

lemma example_jwtBasic_errors: "summaryErrors (examplePackage flag) exampleConverter jwtBasicItem = []"
  by (simp add: summaryErrors_def converter_defs example_defs)

lemma example_ghost_errors:
  "summaryErrors (examplePackage flag) exampleConverter ghostItem = [''TargetNotFound: foo/missing'']"
  by (simp add: summaryErrors_def converter_defs example_defs)

lemma example_jwtBasic_yaml:
  "resourcesYAML (examplePackage flag) exampleConverter jwtBasicItem =
     ''PeerAuthentication foo/jwt-basic-httpbin'' @ [CHR 0x0A]
       @ ''RequestAuthentication foo/jwt-basic-httpbin'' @ [CHR 0x0A]
       @ ''AuthorizationPolicy foo/jwt-basic-httpbin'' @ [CHR 0x0A]"
  by (simp add: resourcesYAML_def converter_defs example_defs exampleYAML_def)

lemma example_decodes:
  "decodes (examplePackage flag) jwtBasicItem" "decodes (examplePackage flag) ghostItem"
  "\<not> decodes (examplePackage flag) brokenItem"
  by (simp_all add: decodes_def example_defs)

lemma example_jwtBasic_resource:
  "targetResource exampleConverter jwtBasic (Service \<lparr>serviceName = ''httpbin'', ports = None\<rparr>) sp =
     \<lparr>resourceName = ''jwt-basic-httpbin'', resourceNamespace = ''foo'',
      selector = Some [(''app'', ''httpbin'')],
      provenanceAnnotation =
        ''converted from alpha authentication policy foo/jwt-basic, service httpbin'',
      spec = sp\<rparr>"
  by (simp add: converter_defs jwtBasic_def exampleConverter_def exampleIndex_def)

section \<open>Properties of the run\<close>

text \<open>
  Claim C1. In a run without \<open>--ignore-error\<close>, if the conversion of at least one
  listed policy reports an error in its summary, then \<open>convert\<close> returns an error and
  writes nothing to the standard output, not even the resources of the policies that
  were converted without error.
\<close>

theorem convert_fails_on_policy_error:
  assumes "\<not> ignoreError d"
    and "ServicesList (kubeClient kc) = Inr services"
    and "gvr \<in> set gvrPolicies" and "listResources kc gvr = Inr items" and "item \<in> set items"
    and "convertToPolicy d item = Inr policy"
    and "errors (snd (Convert d (newConverter d (rootNamespace kc) services) policy)) \<noteq> []"
  shows "ret (convert d kc) \<noteq> None \<and> stdout (convert d kc) = []"
proof (cases "hasIstioNamespace kc")
  case False
  then show ?thesis by (simp add: convert_def)
next
  case True
  define cv where "cv = newConverter d (rootNamespace kc) services"
  have m: "item \<in> set (listed kc gvrPolicies)"
    using assms(3-5) by (rule listed_member)
  have f: "summaryErrors d cv item \<noteq> []"
    using assms(6,7) by (simp add: summaryErrors_def cv_def)
  show ?thesis
  proof (cases "convertPolicies d kc cv gvrPolicies
                  \<lparr>hasError = False, betaPolicyOutput = [], logged = []\<rparr>")
    case (Inl el)
    obtain e lg where "el = (e, lg)" by (cases el)
    with Inl convert_aborted [OF True assms(2), of d e lg] show ?thesis
      by (simp add: cv_def)
  next
    case (Inr st)
    from convertPolicies_Inr [OF Inr] m f have "hasError st" by blast
    with convert_reached [OF True assms(2), of d st] Inr assms(1) show ?thesis
      by (simp add: cv_def Let_def)
  qed
qed

theorem convert_fails_on_policy_error_witness:
  "listResources (exampleCluster [jwtBasicItem, ghostItem] []) (gvrPolicies ! 0)
     = Inr [jwtBasicItem, ghostItem] \<and>
   convertToPolicy (examplePackage False) ghostItem = Inr ghostPolicy \<and>
   errors (snd (ConvertPolicy exampleConverter ghostPolicy)) \<noteq> [] \<and>
   ret (convert (examplePackage False) (exampleCluster [jwtBasicItem, ghostItem] [])) \<noteq> None \<and>
   stdout (convert (examplePackage False) (exampleCluster [jwtBasicItem, ghostItem] [])) = []"
proof -
  let ?d = "examplePackage False" and ?kc = "exampleCluster [jwtBasicItem, ghostItem] []"
  have 1: "\<not> ignoreError ?d" by (simp add: examplePackage_def)
  have 2: "ServicesList (kubeClient ?kc) = Inr exampleIndex" by (simp add: exampleCluster_def)
  have 3: "gvrPolicies ! 0 \<in> set gvrPolicies" by (simp add: gvrPolicies_def)
  have 4: "listResources ?kc (gvrPolicies ! 0) = Inr [jwtBasicItem, ghostItem]"
    by (simp add: listResources_def exampleCluster_def gvrPolicies_def)
  have 5: "ghostItem \<in> set [jwtBasicItem, ghostItem]" by simp
  have 6: "convertToPolicy ?d ghostItem = Inr ghostPolicy"
    by (simp add: examplePackage_def ghostItem_def)
  have e: "errors (snd (ConvertPolicy exampleConverter ghostPolicy)) \<noteq> []"
    by (simp add: converter_defs example_defs)
  have 7: "errors (snd (Convert ?d (newConverter ?d (rootNamespace ?kc) exampleIndex) ghostPolicy)) \<noteq> []"
    using e by (simp add: examplePackage_def exampleCluster_def exampleConverter_def)
  from convert_fails_on_policy_error [OF 1 2 3 4 5 6 7] 4 6 e show ?thesis by simp
qed

text \<open>
  Claim C7. The YAML of the resources generated for a policy is appended to the output
  accumulated by the run if and only if the summary of its conversion has no error:
  when the loop over the policies ends, the accumulated output is the output it started
  with, followed, in the order of the listing, by the resources of each policy without
  error and by nothing for a policy with an error.
\<close>

theorem accumulated_output:
  assumes "convertPolicies d kc converter gvrs st = Inr st'"
  shows "betaPolicyOutput st' =
           betaPolicyOutput st @
           concat (map (\<lambda>item. if summaryErrors d converter item = []
                                then resourcesYAML d converter item else [])
                     (listed kc gvrs))"
  using convertPolicies_Inr [OF assms] by simp

theorem accumulated_output_witness:
  "(case convertPolicies (examplePackage False) (exampleCluster [jwtBasicItem, ghostItem] [])
           exampleConverter gvrPolicies \<lparr>hasError = False, betaPolicyOutput = [], logged = []\<rparr> of
      Inl e \<Rightarrow> None
    | Inr st' \<Rightarrow> Some (betaPolicyOutput st'))
   = Some (''PeerAuthentication foo/jwt-basic-httpbin'' @ [CHR 0x0A]
             @ ''RequestAuthentication foo/jwt-basic-httpbin'' @ [CHR 0x0A]
             @ ''AuthorizationPolicy foo/jwt-basic-httpbin'' @ [CHR 0x0A])"
proof -
  let ?d = "examplePackage False" and ?kc = "exampleCluster [jwtBasicItem, ghostItem] []"
  let ?st = "\<lparr>hasError = False, betaPolicyOutput = [], logged = []\<rparr>"
  have "\<forall>item \<in> set (listed ?kc gvrPolicies). decodes ?d item"
    by (simp add: example_listed_policies example_decodes)
  from convertPolicies_decodes [OF this] obtain st' where
    h: "convertPolicies ?d ?kc exampleConverter gvrPolicies ?st = Inr st'"
    by blast
  from accumulated_output [OF h] h show ?thesis
    by (simp add: example_listed_policies example_jwtBasic_errors example_ghost_errors
        example_jwtBasic_yaml)
qed

text \<open>
  Claim C5, as amended. In a run with \<open>--ignore-error\<close> that is not aborted (the
  namespace \<open>istio-system\<close> exists, the services are listed, every listed policy
  decodes) and in which an error occurred (a policy whose summary has an error, or a
  listed legacy RBAC resource), \<open>convert\<close> returns no error; it hands the accumulated
  output of the policies converted without error to \<open>fmt.Printf\<close>; it logs, for each
  failing policy, the line "FAILED  converting policy" with the namespace and name of
  the policy, the number of its errors and the errors, and, for the RBAC resources, the
  line "FAILED  found ... RBAC resources" with their number and their entries; and its
  last line is "Found errors but ignored with --ignore-error, the converted policies
  may not work as expected".
\<close>

theorem best_effort_run:
  assumes "ignoreError d"
    and "hasIstioNamespace kc" and "ServicesList (kubeClient kc) = Inr services"
    and "converter = newConverter d (rootNamespace kc) services"
    and "\<forall>item \<in> set (listed kc gvrPolicies). decodes d item"
    and "(\<exists>item \<in> set (listed kc gvrPolicies). summaryErrors d converter item \<noteq> [])
           \<or> listed kc gvrRbac \<noteq> []"
  shows "ret (convert d kc) = None \<and>
         stdout (convert d kc) =
           Printf d (concat (map (\<lambda>item. if summaryErrors d converter item = []
                                          then resourcesYAML d converter item else [])
                               (listed kc gvrPolicies))) \<and>
         (\<forall>item \<in> set (listed kc gvrPolicies). summaryErrors d converter item \<noteq> [] \<longrightarrow>
            ''FAILED  converting policy '' @ GetNamespace item @ ''/'' @ GetName item
              @ '', found '' @ show_nat (length (summaryErrors d converter item))
              @ '' errors: '' @ [CHR 0x0A, CHR 0x09] @ ''* ''
              @ Join (summaryErrors d converter item) ([CHR 0x0A, CHR 0x09] @ ''* '')
            \<in> set (logs (convert d kc))) \<and>
         (listed kc gvrRbac \<noteq> [] \<longrightarrow>
            ''FAILED  found '' @ show_nat (length (listed kc gvrRbac))
              @ '' RBAC resources, this tool only supports converting authentication policy, ''
              @ ''check https://istio.io/latest/blog/2019/v1beta1-authorization-policy/''
              @ ''#migration-from-the-v1alpha1-policy for converting RBAC resources manually: ''
              @ [CHR 0x0A, CHR 0x09] @ ''* ''
              @ Join (map (\<lambda>item. GetKind item @ '': '' @ GetNamespace item @ ''/'' @ GetName item)
                       (listed kc gvrRbac))
                  ([CHR 0x0A, CHR 0x09] @ ''* '')
            \<in> set (logs (convert d kc))) \<and>
         last (logs (convert d kc)) =
           ''Found errors but ignored with --ignore-error, the converted policies may not work as expected''"
proof -
  from convert_complete [OF assms(2-5)] obtain st :: run_state where
    c: "convert d kc =
      (let rbacResources = map rbacEntry (listed kc gvrRbac);
           lines = logged st @ (if rbacResources \<noteq> [] then [rbacLine rbacResources] else [])
       in if hasError st \<or> rbacResources \<noteq> [] then
            (if ignoreError d then
               \<lparr>ret = None, stdout = Printf d (betaPolicyOutput st), logs = lines @ [ignoredLine]\<rparr>
             else
               \<lparr>ret = Some (Err (''conversion failed, found errors during conversion, ''
                        @ ''please fix errors and re-run the tool again'')),
                stdout = [], logs = lines\<rparr>)
          else \<lparr>ret = None, stdout = Printf d (betaPolicyOutput st), logs = lines\<rparr>)"
    and h: "hasError st = (\<exists>item \<in> set (listed kc gvrPolicies). summaryErrors d converter item \<noteq> [])"
    and b: "betaPolicyOutput st =
        concat (map (\<lambda>item. if summaryErrors d converter item = []
                             then resourcesYAML d converter item else [])
                  (listed kc gvrPolicies))"
    and l: "logged st = concat (map (policyLines d kc converter) gvrPolicies)"
    by blast
  have f: "hasError st \<or> map rbacEntry (listed kc gvrRbac) \<noteq> []"
    using assms(6) h by auto
  have c': "convert d kc =
      \<lparr>ret = None, stdout = Printf d (betaPolicyOutput st),
       logs = (logged st @ (if map rbacEntry (listed kc gvrRbac) \<noteq> []
                            then [rbacLine (map rbacEntry (listed kc gvrRbac))] else []))
              @ [ignoredLine]\<rparr>"
    using c f assms(1) by (simp add: Let_def)
  have 1: "ret (convert d kc) = None" by (simp add: c')
  have 2: "stdout (convert d kc) =
           Printf d (concat (map (\<lambda>item. if summaryErrors d converter item = []
                                          then resourcesYAML d converter item else [])
                               (listed kc gvrPolicies)))"
    by (simp add: c' b)
  have 3: "\<forall>item \<in> set (listed kc gvrPolicies). summaryErrors d converter item \<noteq> [] \<longrightarrow>
            failedLine item (summaryErrors d converter item) \<in> set (logs (convert d kc))"
    using failedLine_logged [of _ kc gvrPolicies d converter] by (auto simp: c' l)
  have 4: "listed kc gvrRbac \<noteq> [] \<longrightarrow>
            rbacLine (map rbacEntry (listed kc gvrRbac)) \<in> set (logs (convert d kc))"
    by (simp add: c')
  have 5: "last (logs (convert d kc)) = ignoredLine" by (simp add: c')
  have e: "map rbacEntry (listed kc gvrRbac) =
      map (\<lambda>item. GetKind item @ '': '' @ GetNamespace item @ ''/'' @ GetName item)
        (listed kc gvrRbac)"
    by (simp add: rbacEntry_def)
  from 1 2 3 4 5 show ?thesis
    unfolding failedLine_def rbacLine_def ignoredLine_def bullet_def e by simp
qed

theorem best_effort_run_witness:
  "ignoreError (examplePackage True) \<and>
   summaryErrors (examplePackage True) exampleConverter ghostItem = [''TargetNotFound: foo/missing''] \<and>
   listed (exampleCluster [jwtBasicItem, ghostItem] [roleItem]) gvrRbac = [roleItem] \<and>
   convert (examplePackage True) (exampleCluster [jwtBasicItem, ghostItem] [roleItem]) =
     \<lparr>ret = None,
      stdout = ''PeerAuthentication foo/jwt-basic-httpbin'' @ [CHR 0x0A]
         @ ''RequestAuthentication foo/jwt-basic-httpbin'' @ [CHR 0x0A]
         @ ''AuthorizationPolicy foo/jwt-basic-httpbin'' @ [CHR 0x0A],
      logs =
        [''SUCCESS converting policy foo/jwt-basic'',
         ''FAILED  converting policy foo/ghost, found 1 errors: '' @ [CHR 0x0A, CHR 0x09]
           @ ''* TargetNotFound: foo/missing'',
         ''skipped resource meshpolicies: the server could not find the requested resource'',
         ''FAILED  found 1 RBAC resources, this tool only supports converting authentication policy, ''
           @ ''check https://istio.io/latest/blog/2019/v1beta1-authorization-policy/''
           @ ''#migration-from-the-v1alpha1-policy for converting RBAC resources manually: ''
           @ [CHR 0x0A, CHR 0x09] @ ''* ServiceRole: foo/viewer'',
         ''Found errors but ignored with --ignore-error, the converted policies may not work as expected'']\<rparr>"
proof -
  let ?d = "examplePackage True" and ?kc = "exampleCluster [jwtBasicItem, ghostItem] [roleItem]"
  have 1: "ignoreError ?d" by (simp add: examplePackage_def)
  have 4: "exampleConverter = newConverter ?d (rootNamespace ?kc) exampleIndex"
    by (simp add: example_converter)
  have 5: "\<forall>item \<in> set (listed ?kc gvrPolicies). decodes ?d item"
    by (simp add: example_listed_policies example_decodes)
  have 6: "(\<exists>item \<in> set (listed ?kc gvrPolicies). summaryErrors ?d exampleConverter item \<noteq> [])
             \<or> listed ?kc gvrRbac \<noteq> []"
    by (simp add: example_listed_rbac)
  have pf: "Printf ?d = (\<lambda>format. format)" by (simp add: examplePackage_def)
  note t = best_effort_run [OF 1 example_namespace example_services 4 5 6]
  have r: "ret (convert ?d ?kc) = None" using t by blast
  have s: "stdout (convert ?d ?kc) =
      ''PeerAuthentication foo/jwt-basic-httpbin'' @ [CHR 0x0A]
         @ ''RequestAuthentication foo/jwt-basic-httpbin'' @ [CHR 0x0A]
         @ ''AuthorizationPolicy foo/jwt-basic-httpbin'' @ [CHR 0x0A]"
    using t pf by (simp add: example_listed_policies example_jwtBasic_errors example_ghost_errors
        example_jwtBasic_yaml)
  have l: "logs (convert ?d ?kc) =
        [''SUCCESS converting policy foo/jwt-basic'',
         ''FAILED  converting policy foo/ghost, found 1 errors: '' @ [CHR 0x0A, CHR 0x09]
           @ ''* TargetNotFound: foo/missing'',
         ''skipped resource meshpolicies: the server could not find the requested resource'',
         ''FAILED  found 1 RBAC resources, this tool only supports converting authentication policy, ''
           @ ''check https://istio.io/latest/blog/2019/v1beta1-authorization-policy/''
           @ ''#migration-from-the-v1alpha1-policy for converting RBAC resources manually: ''
           @ [CHR 0x0A, CHR 0x09] @ ''* ServiceRole: foo/viewer'',
         ''Found errors but ignored with --ignore-error, the converted policies may not work as expected'']"
    by (simp add: run_defs converter_defs example_defs Let_def exampleYAML_def line_defs
        show_nat.simps digit_chars)
  have "convert ?d ?kc = \<lparr>ret = ret (convert ?d ?kc), stdout = stdout (convert ?d ?kc),
      logs = logs (convert ?d ?kc)\<rparr>"
    by simp
  with r s l 1 show ?thesis
    by (simp add: example_ghost_errors example_listed_rbac)
qed

text \<open>
  Claim C5 as stated asks for a failure status. In the run below, with
  \<open>--ignore-error\<close>, the conversion of the policy \<open>foo/ghost\<close> reports an error and
  \<open>convert\<close> returns \<open>nil\<close>.
\<close>

theorem best_effort_exit_counterexample:
  "ignoreError (examplePackage True) \<and>
   ghostItem \<in> set (listed (exampleCluster [jwtBasicItem, ghostItem] []) gvrPolicies) \<and>
   summaryErrors (examplePackage True) exampleConverter ghostItem \<noteq> [] \<and>
   ret (convert (examplePackage True) (exampleCluster [jwtBasicItem, ghostItem] [])) = None"
proof -
  have "ret (convert (examplePackage True) (exampleCluster [jwtBasicItem, ghostItem] [])) = None"
    by (simp add: run_defs converter_defs example_defs Let_def)
  moreover have "ignoreError (examplePackage True)" by (simp add: examplePackage_def)
  moreover have "ghostItem \<in> set (listed (exampleCluster [jwtBasicItem, ghostItem] []) gvrPolicies)"
    by (simp add: example_listed_policies)
  moreover have "summaryErrors (examplePackage True) exampleConverter ghostItem \<noteq> []"
    by (simp add: example_ghost_errors)
  ultimately show ?thesis by blast
qed

text \<open>
  Claim C6, as amended. In a run that reaches the policies, a listed policy that does
  not decode is fatal to the run, with or without \<open>--ignore-error\<close>: \<open>convert\<close>
  returns the error "failed to convert resource to authentication policy" of the first
  listed policy that does not decode and writes nothing to the standard output; only
  the policies listed before that one are converted (the log has their lines and the
  lines of the kinds skipped before, and nothing else).
\<close>

theorem decode_error_aborts_run:
  assumes "hasIstioNamespace kc" and "ServicesList (kubeClient kc) = Inr services"
    and "converter = newConverter d (rootNamespace kc) services"
    and "gvr \<in> set gvrPolicies" and "listResources kc gvr = Inr items" and "item \<in> set items"
    and "convertToPolicy d item = Inl err"
  shows "\<exists>gs gvr' gs' pre item' post err'.
           gvrPolicies = gs @ gvr' # gs' \<and> listResources kc gvr' = Inr (pre @ item' # post) \<and>
           (\<forall>i \<in> set (listed kc gs @ pre). decodes d i) \<and>
           convertToPolicy d item' = Inl err' \<and>
           convert d kc =
             \<lparr>ret = Some (Errorf ''failed to convert resource to authentication policy: '' err'),
              stdout = [],
              logs = concat (map (policyLines d kc converter) gs) @ map (itemLine d converter) pre\<rparr>"
proof -
  have m: "item \<in> set (listed kc gvrPolicies)"
    using assms(4-6) by (rule listed_member)
  have n: "\<not> decodes d item" using assms(7) by (simp add: decodes_def)
  obtain e lg where a: "convertPolicies d kc converter gvrPolicies
      \<lparr>hasError = False, betaPolicyOutput = [], logged = []\<rparr> = Inl (e, lg)"
  proof (cases "convertPolicies d kc converter gvrPolicies
      \<lparr>hasError = False, betaPolicyOutput = [], logged = []\<rparr>")
    case (Inl el)
    then show ?thesis using that by (cases el) simp
  next
    case (Inr st)
    from convertPolicies_Inr [OF Inr] m n show ?thesis by blast
  qed
  from convert_aborted [OF assms(1,2) a [unfolded assms(3)]]
  have c: "convert d kc = \<lparr>ret = Some e, stdout = [], logs = lg\<rparr>" .
  from convertPolicies_Inl_first [OF a] obtain gs gvr' gs' pre item' post err' where
    h: "gvrPolicies = gs @ gvr' # gs'" "listResources kc gvr' = Inr (pre @ item' # post)"
       "\<forall>i \<in> set (listed kc gs @ pre). decodes d i" "convertToPolicy d item' = Inl err'"
       "e = Errorf ''failed to convert resource to authentication policy: '' err'"
       "lg = logged \<lparr>hasError = False, betaPolicyOutput = [], logged = []\<rparr>
               @ concat (map (policyLines d kc converter) gs) @ map (itemLine d converter) pre"
    by blast
  show ?thesis
    apply (rule exI [of _ gs], rule exI [of _ gvr'], rule exI [of _ gs'],
          rule exI [of _ pre], rule exI [of _ item'], rule exI [of _ post],
          rule exI [of _ err'])
    using h c by simp
qed

theorem decode_error_aborts_run_witness:
  "convertToPolicy (examplePackage True) brokenItem = Inl (Err ''policy has no spec'') \<and>
   ret (convert (examplePackage True) (exampleCluster [jwtBasicItem, brokenItem, ghostItem] [])) \<noteq> None \<and>
   stdout (convert (examplePackage True) (exampleCluster [jwtBasicItem, brokenItem, ghostItem] [])) = []"
proof -
  let ?d = "examplePackage True" and ?kc = "exampleCluster [jwtBasicItem, brokenItem, ghostItem] []"
  have 3: "gvrPolicies ! 0 \<in> set gvrPolicies" by (simp add: gvrPolicies_def)
  have 4: "listResources ?kc (gvrPolicies ! 0) = Inr [jwtBasicItem, brokenItem, ghostItem]"
    by (simp add: listResources_def exampleCluster_def gvrPolicies_def)
  have 5: "brokenItem \<in> set [jwtBasicItem, brokenItem, ghostItem]" by simp
  have 6: "convertToPolicy ?d brokenItem = Inl (Err ''policy has no spec'')"
    by (simp add: examplePackage_def brokenItem_def)
  from decode_error_aborts_run [OF example_namespace example_services refl 3 4 5 6] 6
  show ?thesis by auto
qed

text \<open>
  Claim C6 as stated lets the run go on after a policy that does not decode. In the run
  below, with \<open>--ignore-error\<close>, the first policy does not decode and the second one
  does: \<open>convert\<close> returns the decoding error, logs no line (the second policy is never
  converted) and writes nothing.
\<close>

theorem decode_error_counterexample:
  "ignoreError (examplePackage True) \<and>
   listed (exampleCluster [brokenItem, jwtBasicItem] []) gvrPolicies = [brokenItem, jwtBasicItem] \<and>
   convertToPolicy (examplePackage True) brokenItem = Inl (Err ''policy has no spec'') \<and>
   convertToPolicy (examplePackage True) jwtBasicItem = Inr jwtBasic \<and>
   convert (examplePackage True) (exampleCluster [brokenItem, jwtBasicItem] []) =
     \<lparr>ret = Some (Err ''failed to convert resource to authentication policy: policy has no spec''),
      stdout = [], logs = []\<rparr>"
proof -
  have "convert (examplePackage True) (exampleCluster [brokenItem, jwtBasicItem] []) =
     \<lparr>ret = Some (Err ''failed to convert resource to authentication policy: policy has no spec''),
      stdout = [], logs = []\<rparr>"
    by (simp add: run_defs example_defs)
  moreover have "ignoreError (examplePackage True)" by (simp add: examplePackage_def)
  moreover have "listed (exampleCluster [brokenItem, jwtBasicItem] []) gvrPolicies
      = [brokenItem, jwtBasicItem]"
    by (simp add: example_listed_policies)
  moreover have "convertToPolicy (examplePackage True) brokenItem = Inl (Err ''policy has no spec'')"
    by (simp add: examplePackage_def brokenItem_def)
  moreover have "convertToPolicy (examplePackage True) jwtBasicItem = Inr jwtBasic"
    by (simp add: examplePackage_def jwtBasicItem_def)
  ultimately show ?thesis by blast
qed




section \<open>Properties of the converter\<close>

lemma targetErrors_convertible: "(targetErrors cv p tgt = []) = convertible cv p tgt"
  by (cases tgt) (auto simp: targetErrors_def convertible_def resolve_def split: option.splits)

lemma peerMethodErrors_Nil: "(peerMethodErrors p = []) = (length (peerMethods p) \<le> 1)"
  by (auto simp: peerMethodErrors_def)

lemma convertTarget_eq:
  "convertTarget cv p tgt =
     (if length (peerMethods p) \<le> 1 \<and> convertible cv p tgt
      then map (targetResource cv p tgt) (targetSpecs p) else [])"
  by (auto simp: convertTarget_def targetErrors_convertible peerMethodErrors_Nil)

lemma spec_targetResource: "spec (targetResource cv p tgt sp) = sp"
  by (simp add: targetResource_def)

lemma peer_of_specs:
  "filter isPeerAuthentication (map (targetResource cv p tgt) (targetSpecs p)) =
     (case mtlsMode p of
        None \<Rightarrow> []
      | Some m \<Rightarrow> [targetResource cv p tgt (PeerAuthentication m)])"
  by (auto simp: targetSpecs_def isPeerAuthentication_def spec_targetResource
      split: option.splits)



lemma filter_concat_map:
  "filter P (concat (map f xs)) = concat (map (\<lambda>x. filter P (f x)) xs)"
  by (induction xs) auto

lemma concat_map_if_singleton:
  "concat (map (\<lambda>x. if Q x then [g x] else []) xs) = map g (filter Q xs)"
  by (induction xs) auto

lemma concat_map_Nil: "concat (map (\<lambda>x. []) xs) = []"
  by (induction xs) auto

lemma peer_of_target:
  "filter isPeerAuthentication (convertTarget cv p tgt) =
     (if length (peerMethods p) \<le> 1 \<and> convertible cv p tgt then
        (case mtlsMode p of
           None \<Rightarrow> []
         | Some m \<Rightarrow> [targetResource cv p tgt (PeerAuthentication m)])
      else [])"
  by (simp add: convertTarget_eq peer_of_specs)


lemma peer_of_policy:
  assumes "mtlsMode p = Some m"
  shows "filter isPeerAuthentication (fst (ConvertPolicy cv p)) =
     map (\<lambda>tgt. targetResource cv p tgt (PeerAuthentication m))
       (filter (convertible cv p) (targetSet p))"
proof -
  have l: "length (peerMethods p) \<le> 1"
    using assms by (auto simp: mtlsMode_def split: list.splits)
  have "\<And>tgt. filter isPeerAuthentication (convertTarget cv p tgt) =
      (if convertible cv p tgt then [targetResource cv p tgt (PeerAuthentication m)] else [])"
    using assms l by (simp add: peer_of_target)
  then show ?thesis
    by (simp add: ConvertPolicy_def filter_concat_map concat_map_if_singleton)
qed

lemma no_peer_of_policy:
  assumes "mtlsMode p = None"
  shows "filter isPeerAuthentication (fst (ConvertPolicy cv p)) = []"
proof -
  have "\<And>tgt. filter isPeerAuthentication (convertTarget cv p tgt) = []"
    using assms by (simp add: peer_of_target)
  then show ?thesis
    by (simp add: ConvertPolicy_def filter_concat_map concat_map_Nil)
qed



lemma concat_Nil_all: "concat (map f xs) = [] \<Longrightarrow> x \<in> set xs \<Longrightarrow> f x = []"
  by (induction xs) auto

lemma no_errors_convertible:
  assumes "errors (snd (ConvertPolicy cv p)) = []"
  shows "length (peerMethods p) \<le> 1" and "filter (convertible cv p) (targetSet p) = targetSet p"
proof -
  from assms have a: "peerMethodErrors p = []"
    and b: "concat (map (targetErrors cv p) (targetSet p)) = []"
    by (simp_all add: ConvertPolicy_def)
  from a show "length (peerMethods p) \<le> 1" by (simp add: peerMethodErrors_Nil)
  have "\<forall>tgt \<in> set (targetSet p). convertible cv p tgt"
    using concat_Nil_all [OF b] by (simp add: targetErrors_convertible [symmetric])
  then show "filter (convertible cv p) (targetSet p) = targetSet p" by simp
qed

lemma targetSet_nonempty: "targetSet p \<noteq> []"
  by (simp add: targetSet_def)


lemmas example_policy_defs =
  jwtBasic_def ghostPolicy_def twoTargets_def noPeerPolicy_def usePeerPolicy_def
  unspecifiedPolicy_def portPolicy_def strictPolicy_def exampleConverter_def exampleIndex_def

lemma example_convertible:
  "filter (convertible exampleConverter jwtBasic) (targetSet jwtBasic) =
     [Service \<lparr>serviceName = ''httpbin'', ports = None\<rparr>]"
  "filter (convertible exampleConverter strictPolicy) (targetSet strictPolicy) =
     [Service \<lparr>serviceName = ''httpbin'', ports = None\<rparr>]"
  "filter (convertible exampleConverter twoTargets) (targetSet twoTargets) =
     [Service \<lparr>serviceName = ''httpbin'', ports = None\<rparr>,
      Service \<lparr>serviceName = ''sleep'', ports = None\<rparr>]"
  "filter (convertible exampleConverter ghostPolicy) (targetSet ghostPolicy) = []"
  "filter (convertible exampleConverter portPolicy) (targetSet portPolicy) = []"
  by (simp_all add: convertible_def targetSet_def effectiveNamespace_def example_policy_defs)

lemma example_resource:
  "targetResource exampleConverter strictPolicy (Service \<lparr>serviceName = ''httpbin'', ports = None\<rparr>) sp =
     \<lparr>resourceName = ''jwt-basic-httpbin'', resourceNamespace = ''foo'',
      selector = Some [(''app'', ''httpbin'')],
      provenanceAnnotation =
        ''converted from alpha authentication policy foo/jwt-basic, service httpbin'',
      spec = sp\<rparr>"
  "targetResource exampleConverter twoTargets (Service \<lparr>serviceName = ''httpbin'', ports = None\<rparr>) sp =
     \<lparr>resourceName = ''jwt-basic-httpbin'', resourceNamespace = ''foo'',
      selector = Some [(''app'', ''httpbin'')],
      provenanceAnnotation =
        ''converted from alpha authentication policy foo/jwt-basic, service httpbin'',
      spec = sp\<rparr>"
  "targetResource exampleConverter twoTargets (Service \<lparr>serviceName = ''sleep'', ports = None\<rparr>) sp =
     \<lparr>resourceName = ''jwt-basic-sleep'', resourceNamespace = ''foo'',
      selector = Some [(''app'', ''sleep'')],
      provenanceAnnotation =
        ''converted from alpha authentication policy foo/jwt-basic, service sleep'',
      spec = sp\<rparr>"
  by (simp_all add: converter_defs example_policy_defs)

text \<open>
  Claim C2. For a policy whose \<open>peerMethods\<close> is one \<open>MutualTLS\<close> entry, the
  converter emits a PeerAuthentication with mode Permissive when \<open>peerIsOptional\<close> is
  true and with mode Strict when it is false: one for each target that can be
  converted (the implicit target, or a service whose selector resolves and that names
  no ports) and no other, so that every PeerAuthentication among the resources has
  that mode, and a policy converted without error gets one for each of its targets, at
  least one. For a policy with empty \<open>peerMethods\<close>, no PeerAuthentication is emitted.
\<close>

theorem peer_authentication_mode:
  "(peerMethods p = [MutualTLS] \<longrightarrow>
      filter isPeerAuthentication (fst (ConvertPolicy cv p)) =
        map (\<lambda>tgt. targetResource cv p tgt
                     (PeerAuthentication (if peerIsOptional p then Permissive else Strict)))
          (filter (convertible cv p) (targetSet p)) \<and>
      (\<forall>r \<in> set (fst (ConvertPolicy cv p)). \<forall>m. spec r = PeerAuthentication m \<longrightarrow>
         m = (if peerIsOptional p then Permissive else Strict)) \<and>
      (errors (snd (ConvertPolicy cv p)) = [] \<longrightarrow>
         filter isPeerAuthentication (fst (ConvertPolicy cv p)) \<noteq> [] \<and>
         length (filter isPeerAuthentication (fst (ConvertPolicy cv p))) = length (targetSet p))) \<and>
   (peerMethods p = [] \<longrightarrow> filter isPeerAuthentication (fst (ConvertPolicy cv p)) = [])"
proof -
  let ?mode = "if peerIsOptional p then Permissive else Strict"
  have a: "filter isPeerAuthentication (fst (ConvertPolicy cv p)) =
        map (\<lambda>tgt. targetResource cv p tgt (PeerAuthentication ?mode))
          (filter (convertible cv p) (targetSet p))" if "peerMethods p = [MutualTLS]"
    using that by (intro peer_of_policy) (simp add: mtlsMode_def)
  have b: "\<forall>r \<in> set (fst (ConvertPolicy cv p)). \<forall>m. spec r = PeerAuthentication m \<longrightarrow> m = ?mode"
    if h: "peerMethods p = [MutualTLS]"
  proof (intro ballI allI impI)
    fix r m
    assume r: "r \<in> set (fst (ConvertPolicy cv p))" and m: "spec r = PeerAuthentication m"
    then have "r \<in> set (filter isPeerAuthentication (fst (ConvertPolicy cv p)))"
      by (simp add: isPeerAuthentication_def)
    with a [OF h] have "spec r = PeerAuthentication ?mode"
      by (auto simp: spec_targetResource)
    with m show "m = ?mode" by simp
  qed
  have c: "filter isPeerAuthentication (fst (ConvertPolicy cv p)) \<noteq> [] \<and>
      length (filter isPeerAuthentication (fst (ConvertPolicy cv p))) = length (targetSet p)"
    if "peerMethods p = [MutualTLS]" and "errors (snd (ConvertPolicy cv p)) = []"
    using a [OF that(1)] no_errors_convertible(2) [OF that(2)] targetSet_nonempty [of p] by simp
  have d: "filter isPeerAuthentication (fst (ConvertPolicy cv p)) = []" if "peerMethods p = []"
    using that by (intro no_peer_of_policy) (simp add: mtlsMode_def)
  from a b c d show ?thesis by blast
qed

theorem peer_authentication_mode_witness:
  "peerMethods jwtBasic = [MutualTLS] \<and> peerIsOptional jwtBasic \<and>
   errors (snd (ConvertPolicy exampleConverter jwtBasic)) = [] \<and>
   filter isPeerAuthentication (fst (ConvertPolicy exampleConverter jwtBasic)) =
     [\<lparr>resourceName = ''jwt-basic-httpbin'', resourceNamespace = ''foo'',
       selector = Some [(''app'', ''httpbin'')],
       provenanceAnnotation =
         ''converted from alpha authentication policy foo/jwt-basic, service httpbin'',
       spec = PeerAuthentication Permissive\<rparr>] \<and>
   peerMethods strictPolicy = [MutualTLS] \<and> \<not> peerIsOptional strictPolicy \<and>
   filter isPeerAuthentication (fst (ConvertPolicy exampleConverter strictPolicy)) =
     [\<lparr>resourceName = ''jwt-basic-httpbin'', resourceNamespace = ''foo'',
       selector = Some [(''app'', ''httpbin'')],
       provenanceAnnotation =
         ''converted from alpha authentication policy foo/jwt-basic, service httpbin'',
       spec = PeerAuthentication Strict\<rparr>] \<and>
   peerMethods ghostPolicy = [MutualTLS] \<and>
   filter isPeerAuthentication (fst (ConvertPolicy exampleConverter ghostPolicy)) = [] \<and>
   peerMethods portPolicy = [MutualTLS] \<and>
   filter isPeerAuthentication (fst (ConvertPolicy exampleConverter portPolicy)) = [] \<and>
   peerMethods noPeerPolicy = [] \<and>
   map spec (fst (ConvertPolicy exampleConverter noPeerPolicy)) =
     [RequestAuthentication (jwtRules jwtBasic),
      AuthorizationPolicy Deny [\<lparr>requiresRequestPrincipal = True\<rparr>]] \<and>
   filter isPeerAuthentication (fst (ConvertPolicy exampleConverter noPeerPolicy)) = []"
proof -
  have 1: "peerMethods jwtBasic = [MutualTLS]" "peerIsOptional jwtBasic"
      "peerMethods strictPolicy = [MutualTLS]" "\<not> peerIsOptional strictPolicy"
      "peerMethods ghostPolicy = [MutualTLS]" "peerMethods portPolicy = [MutualTLS]"
      "peerMethods noPeerPolicy = []"
    by (simp_all add: example_policy_defs)
  have 2: "errors (snd (ConvertPolicy exampleConverter jwtBasic)) = []"
    by (simp add: converter_defs example_policy_defs)
  have 3: "map spec (fst (ConvertPolicy exampleConverter noPeerPolicy)) =
     [RequestAuthentication (jwtRules jwtBasic),
      AuthorizationPolicy Deny [\<lparr>requiresRequestPrincipal = True\<rparr>]]"
    by (simp add: converter_defs example_policy_defs)
  from peer_authentication_mode [of jwtBasic exampleConverter]
       peer_authentication_mode [of strictPolicy exampleConverter]
       peer_authentication_mode [of ghostPolicy exampleConverter]
       peer_authentication_mode [of portPolicy exampleConverter]
       peer_authentication_mode [of noPeerPolicy exampleConverter] 1 2 3
  show ?thesis
    by (simp add: example_convertible example_jwtBasic_resource example_resource)
qed



text \<open>
  Claim C4. With the selector \<open>app: httpbin\<close> resolved for the service \<open>httpbin\<close> of
  the namespace \<open>foo\<close>, the policy \<open>foo/jwt-basic\<close> is converted without error or
  warning into exactly the three resources of the reference output: each is named
  \<open>jwt-basic-httpbin\<close>, in the namespace \<open>foo\<close>, with the selector \<open>app: httpbin\<close>;
  a PeerAuthentication with mode Permissive, a RequestAuthentication with the one JwtRule
  of that issuer and that \<open>jwksUri\<close>, and an AuthorizationPolicy with action Deny and
  one rule that requires a request principal.
\<close>

theorem jwt_basic_conversion:
  assumes "index cv (''foo'', ''httpbin'') = Some [(''app'', ''httpbin'')]"
  shows "ConvertPolicy cv jwtBasic = (referenceFixture, \<lparr>errors = [], warnings = []\<rparr>) \<and>
         map resourceName referenceFixture = replicate 3 ''jwt-basic-httpbin'' \<and>
         map resourceNamespace referenceFixture = replicate 3 ''foo'' \<and>
         map selector referenceFixture = replicate 3 (Some [(''app'', ''httpbin'')]) \<and>
         map spec referenceFixture =
           [PeerAuthentication Permissive,
            RequestAuthentication
              [\<lparr>issuer = ''testing@secure.istio.io'',
                jwksUri = ''https://raw.githubusercontent.com/istio/istio/release-1.4/''
                            @ ''security/tools/jwt/samples/jwks.json'',
                audiences = {}, jwtHeaders = []\<rparr>],
            AuthorizationPolicy Deny [\<lparr>requiresRequestPrincipal = True\<rparr>]]"
proof -
  have "ConvertPolicy cv jwtBasic = (referenceFixture, \<lparr>errors = [], warnings = []\<rparr>)"
    using assms by (simp add: converter_defs jwtBasic_def referenceFixture_def)
  moreover have "map resourceName referenceFixture = replicate 3 ''jwt-basic-httpbin''"
    by (simp add: referenceFixture_def numeral_3_eq_3)
  moreover have "map resourceNamespace referenceFixture = replicate 3 ''foo''"
    by (simp add: referenceFixture_def numeral_3_eq_3)
  moreover have "map selector referenceFixture = replicate 3 (Some [(''app'', ''httpbin'')])"
    by (simp add: referenceFixture_def numeral_3_eq_3)
  moreover have "map spec referenceFixture =
           [PeerAuthentication Permissive,
            RequestAuthentication
              [\<lparr>issuer = ''testing@secure.istio.io'',
                jwksUri = ''https://raw.githubusercontent.com/istio/istio/release-1.4/''
                            @ ''security/tools/jwt/samples/jwks.json'',
                audiences = {}, jwtHeaders = []\<rparr>],
            AuthorizationPolicy Deny [\<lparr>requiresRequestPrincipal = True\<rparr>]]"
    by (simp add: referenceFixture_def)
  ultimately show ?thesis by blast
qed

theorem jwt_basic_conversion_witness:
  "index exampleConverter (''foo'', ''httpbin'') = Some [(''app'', ''httpbin'')] \<and>
   ConvertPolicy exampleConverter jwtBasic = (referenceFixture, \<lparr>errors = [], warnings = []\<rparr>) \<and>
   length referenceFixture = 3"
proof -
  have 1: "index exampleConverter (''foo'', ''httpbin'') = Some [(''app'', ''httpbin'')]"
    by (simp add: exampleConverter_def exampleIndex_def)
  have 2: "length referenceFixture = 3" by (simp add: referenceFixture_def)
  from jwt_basic_conversion [OF 1] 1 2 show ?thesis by simp
qed

end
